theory Spec2Isabelle
  imports Main
begin

unbundle bit_operations_syntax

section \<open>Conventions\<close>

text \<open>
  The authentication core of secure-task-api: \<^verbatim>\<open>internal/auth/password.go\<close>, the JWT manager
  (\<^verbatim>\<open>internal/auth\<close>, package \<^verbatim>\<open>auth\<close>), \<^verbatim>\<open>internal/middleware/middleware.go\<close> and the
  \<^verbatim>\<open>Login\<close> handler.

  Go strings and byte slices are \<^typ>\<open>string\<close> (a list of 8-bit characters). A Go function
  returning \<^verbatim>\<open>(T, error)\<close> returns a sum, \<open>Inl\<close> carrying the error; one returning only
  \<^verbatim>\<open>error\<close> returns an option, \<open>None\<close> being \<^verbatim>\<open>nil\<close>. The clock (\<^verbatim>\<open>time.Now()\<close>) and
  the random salt are explicit arguments; one clock reading is taken per operation. Times
  and durations are unbounded integers of nanoseconds. Log output is left out.

  The repository calls three packages whose sources are not part of it:
  \<^verbatim>\<open>golang.org/x/crypto/bcrypt\<close>, \<^verbatim>\<open>github.com/golang-jwt/jwt/v5\<close> (over the standard
  \<^verbatim>\<open>crypto/hmac\<close>) and \<^verbatim>\<open>strings\<close>. Their control flow is written out below from their
  published behaviour; the cryptographic cores (the Blowfish key-schedule digest, the SHA-2
  compression functions) and the JSON/base64 codec stay \<^emph>\<open>arguments\<close> of the model, so every
  general result holds for whatever these functions compute.
\<close>

text \<open>
  An \<^verbatim>\<open>error\<close> value: made by \<^verbatim>\<open>fmt.Errorf\<close> from a message, made by \<^verbatim>\<open>fmt.Errorf\<close> with
  \<^verbatim>\<open>%w\<close> around a library error, or a library error handed on as it is.
\<close>

datatype 'e go_error = Errorf string | Errorf_w string 'e | Passed 'e

section \<open>Package bcrypt\<close>

datatype bcrypt_error =
    ErrMismatchedHashAndPassword
  | ErrHashTooShort
  | ErrPasswordTooLong
  | InvalidHashPrefixError
  | HashVersionTooNewError
  | InvalidCostError
  | AtoiSyntaxError
  | SaltDecodeError

text \<open>The struct \<^verbatim>\<open>hashed\<close>; \<open>minor\<close> is the zero byte when the version has no minor part.\<close>

record hashed =
  hash :: string
  salt :: string
  cost :: nat
  major :: char
  minor :: char

definition MinCost :: int where "MinCost = 4"
definition MaxCost :: int where "MaxCost = 31"
definition DefaultCost :: int where "DefaultCost = 10"
definition encodedSaltSize :: nat where "encodedSaltSize = 22"
definition encodedHashSize :: nat where "encodedHashSize = 31"
definition minHashSize :: nat where "minHashSize = 59"

definition NUL :: char where "NUL = CHR 0x00"

text \<open>\<^verbatim>\<open>copy(dst, src)\<close> into a zeroed window of \<open>n\<close> bytes.\<close>

definition copy_into :: "nat \<Rightarrow> string \<Rightarrow> string" where
  "copy_into n src = take n (src @ replicate n NUL)"

definition is_digit :: "char \<Rightarrow> bool" where
  "is_digit c = (48 \<le> (of_char c :: nat) \<and> (of_char c :: nat) \<le> 57)"

definition digit_val :: "char \<Rightarrow> int" where
  "digit_val c = int (of_char c) - 48"

definition digit_char :: "nat \<Rightarrow> char" where
  "digit_char n = char_of (48 + n)"

text \<open>\<^verbatim>\<open>fmt.Sprintf("%02d", cost)\<close> for a cost below 100 (\<^verbatim>\<open>checkCost\<close> keeps it below 32).\<close>

definition sprintf_02d :: "nat \<Rightarrow> string" where
  "sprintf_02d n = [digit_char (n div 10), digit_char (n mod 10)]"

text \<open>\<^verbatim>\<open>strconv.Atoi\<close> on the two cost bytes: two digits, or a sign and one digit.\<close>

definition atoi2 :: "char \<Rightarrow> char \<Rightarrow> int option" where
  "atoi2 a b =
     (if is_digit a \<and> is_digit b then Some (10 * digit_val a + digit_val b)
      else if a = CHR ''+'' \<and> is_digit b then Some (digit_val b)
      else if a = CHR ''-'' \<and> is_digit b then Some (- digit_val b)
      else None)"

definition checkCost :: "int \<Rightarrow> bcrypt_error option" where
  "checkCost c = (if c < MinCost \<or> c > MaxCost then Some InvalidCostError else None)"

text \<open>
  \<^verbatim>\<open>(*hashed).Hash\<close>: the credential string \<^verbatim>\<open>$2a$10$<salt><digest>\<close>, assembled in a
  60-byte array.
\<close>

definition Hash :: "hashed \<Rightarrow> string" where
  "Hash p =
     [CHR ''$'', major p] @ (if minor p \<noteq> NUL then [minor p] else []) @ ''$''
       @ sprintf_02d (cost p) @ ''$''
       @ copy_into encodedSaltSize (salt p) @ copy_into encodedHashSize (hash p)"

text \<open>\<^verbatim>\<open>newFromHash\<close> with \<^verbatim>\<open>decodeVersion\<close> and \<^verbatim>\<open>decodeCost\<close> inlined.\<close>

definition newFromHash :: "string \<Rightarrow> bcrypt_error + hashed" where
  "newFromHash hashedSecret =
     (if length hashedSecret < minHashSize then Inl ErrHashTooShort
      else if hashedSecret ! 0 \<noteq> CHR ''$'' then Inl InvalidHashPrefixError
      else if (of_char (hashedSecret ! 1) :: nat) > of_char (CHR ''2'') then Inl HashVersionTooNewError
      else
        let n = (if hashedSecret ! 2 \<noteq> CHR ''$'' then 4 else 3);
            mi = (if hashedSecret ! 2 \<noteq> CHR ''$'' then hashedSecret ! 2 else NUL);
            s1 = drop n hashedSecret
        in (case atoi2 (s1 ! 0) (s1 ! 1) of
              None \<Rightarrow> Inl AtoiSyntaxError
            | Some c \<Rightarrow>
                (case checkCost c of
                   Some e \<Rightarrow> Inl e
                 | None \<Rightarrow>
                     let s2 = drop 3 s1
                     in Inr \<lparr>hash = drop encodedSaltSize s2, salt = take encodedSaltSize s2,
                              cost = nat c, major = hashedSecret ! 1, minor = mi\<rparr>)))"

text \<open>
  The Blowfish key schedule (\<^verbatim>\<open>expensiveBlowfishSetup\<close>, \<^verbatim>\<open>blowfish.ExpandKey\<close>) appends a
  zero byte to the password and then reads that key cyclically, four bytes for each of the
  18 words of the P-array: 72 bytes in all. Nothing else of the password enters the digest.
\<close>

definition bcrypt_key :: "string \<Rightarrow> string" where
  "bcrypt_key password = take 72 (concat (replicate 72 (password @ [NUL])))"

text \<open>
  The function \<^verbatim>\<open>bcrypt(password, cost, salt)\<close>. Its argument \<open>eks\<close> is the digest
  computation proper (cost, encoded salt, 72 key bytes); \<open>None\<close> is its error return (an
  undecodable salt).
\<close>

type_synonym eks_fn = "nat \<Rightarrow> string \<Rightarrow> string \<Rightarrow> string option"

definition bcrypt :: "eks_fn \<Rightarrow> string \<Rightarrow> nat \<Rightarrow> string \<Rightarrow> bcrypt_error + string" where
  "bcrypt eks password c s =
     (case eks c s (bcrypt_key password) of None \<Rightarrow> Inl SaltDecodeError | Some d \<Rightarrow> Inr d)"

text \<open>
  \<^verbatim>\<open>GenerateFromPassword\<close>; \<open>rnd\<close> is the encoded random salt (22 characters). The length
  check is that of current releases of the package.
\<close>

definition GenerateFromPassword :: "eks_fn \<Rightarrow> string \<Rightarrow> string \<Rightarrow> int \<Rightarrow> bcrypt_error + string" where
  "GenerateFromPassword eks rnd password c =
     (if length password > 72 then Inl ErrPasswordTooLong
      else
        let c' = (if c < MinCost then DefaultCost else c)
        in (case checkCost c' of
              Some e \<Rightarrow> Inl e
            | None \<Rightarrow>
                (case bcrypt eks password (nat c') rnd of
                   Inl e \<Rightarrow> Inl e
                 | Inr d \<Rightarrow>
                     Inr (Hash \<lparr>hash = d, salt = rnd, cost = nat c',
                                major = CHR ''2'', minor = CHR ''a''\<rparr>))))"

text \<open>\<^verbatim>\<open>CompareHashAndPassword\<close>; \<^verbatim>\<open>subtle.ConstantTimeCompare\<close> is equality of the two strings.\<close>

definition CompareHashAndPassword :: "eks_fn \<Rightarrow> string \<Rightarrow> string \<Rightarrow> bcrypt_error option" where
  "CompareHashAndPassword eks hashedPassword password =
     (case newFromHash hashedPassword of
        Inl e \<Rightarrow> Some e
      | Inr p \<Rightarrow>
          (case bcrypt eks password (cost p) (salt p) of
             Inl e \<Rightarrow> Some e
           | Inr otherHash \<Rightarrow>
               if Hash p = Hash (p\<lparr>hash := otherHash\<rparr>) then None
               else Some ErrMismatchedHashAndPassword))"

section \<open>internal/auth/password.go\<close>

definition HashPassword :: "eks_fn \<Rightarrow> string \<Rightarrow> string \<Rightarrow> bcrypt_error go_error + string" where
  "HashPassword eks rnd password =
     (case GenerateFromPassword eks rnd password DefaultCost of
        Inl err \<Rightarrow> Inl (Errorf_w ''could not hash password: '' err)
      | Inr hashed \<Rightarrow> Inr hashed)"

definition CheckPassword :: "eks_fn \<Rightarrow> string \<Rightarrow> string \<Rightarrow> bcrypt_error go_error option" where
  "CheckPassword eks password hashed =
     (case CompareHashAndPassword eks hashed password of
        Some err \<Rightarrow> Some (Errorf ''password does not match'')
      | None \<Rightarrow> None)"

section \<open>Package crypto/hmac\<close>

datatype hash_alg = SHA256 | SHA384 | SHA512

type_synonym hash_fn = "hash_alg \<Rightarrow> string \<Rightarrow> string"

definition BlockSize :: "hash_alg \<Rightarrow> nat" where
  "BlockSize h = (case h of SHA256 \<Rightarrow> 64 | SHA384 \<Rightarrow> 128 | SHA512 \<Rightarrow> 128)"

definition xor_bytes :: "nat \<Rightarrow> string \<Rightarrow> string" where
  "xor_bytes p s = map (\<lambda>c. char_of ((of_char c :: nat) XOR p)) s"

text \<open>
  \<^verbatim>\<open>hmac.New\<close>: a key longer than the block is hashed first; the key is then copied into a
  zeroed block (\<^verbatim>\<open>copy(hm.ipad, key)\<close>), which pads a shorter key with zero bytes.
\<close>

definition hmac_block :: "hash_fn \<Rightarrow> hash_alg \<Rightarrow> string \<Rightarrow> string" where
  "hmac_block H h key =
     copy_into (BlockSize h) (if length key > BlockSize h then H h key else key)"

text \<open>The tag \<^verbatim>\<open>H(opad || H(ipad || message))\<close>; \<open>H\<close> is the hash function, an argument.\<close>

definition hmac_Sum :: "hash_fn \<Rightarrow> hash_alg \<Rightarrow> string \<Rightarrow> string \<Rightarrow> string" where
  "hmac_Sum H h key msg =
     H h (xor_bytes 0x5c (hmac_block H h key) @ H h (xor_bytes 0x36 (hmac_block H h key) @ msg))"

section \<open>Package jwt\<close>

type_synonym Time = int \<comment> \<open>nanoseconds since the Unix epoch\<close>
type_synonym Duration = int \<comment> \<open>nanoseconds\<close>
type_synonym NumericDate = int \<comment> \<open>whole seconds since the Unix epoch\<close>

text \<open>
  \<^verbatim>\<open>jwt.NewNumericDate\<close> truncates to \<^verbatim>\<open>TimePrecision\<close>, one second; a date read from a
  token goes through the same truncation.
\<close>

definition NewNumericDate :: "Time \<Rightarrow> NumericDate" where
  "NewNumericDate t = t div 1000000000"

definition date_Time :: "NumericDate \<Rightarrow> Time" where
  "date_Time d = d * 1000000000"

text \<open>
  \<^verbatim>\<open>jwt.RegisteredClaims\<close> without \<^verbatim>\<open>Audience\<close> and \<^verbatim>\<open>ID\<close>, which this program neither
  writes nor checks, and the repository's \<^verbatim>\<open>Claims\<close>, which embeds it.
\<close>

record RegisteredClaims =
  Issuer :: string
  Subject :: string
  ExpiresAt :: "NumericDate option"
  NotBefore :: "NumericDate option"
  IssuedAt :: "NumericDate option"

record Claims = RegisteredClaims +
  UserID :: string
  Email :: string

text \<open>
  The members of a token's JSON payload that either struct reads. Encoding follows the
  struct tags: the registered members are \<^verbatim>\<open>omitempty\<close>, \<^verbatim>\<open>user_id\<close> and \<^verbatim>\<open>email\<close> are
  always written. Decoding leaves a field whose member is absent at its zero value.
\<close>

record members =
  m_user_id :: "string option"
  m_email :: "string option"
  m_iss :: "string option"
  m_sub :: "string option"
  m_exp :: "NumericDate option"
  m_nbf :: "NumericDate option"
  m_iat :: "NumericDate option"

definition omitempty :: "string \<Rightarrow> string option" where
  "omitempty s = (if s = [] then None else Some s)"

definition zero_if_absent :: "string option \<Rightarrow> string" where
  "zero_if_absent m = (case m of None \<Rightarrow> [] | Some s \<Rightarrow> s)"

definition marshal_RegisteredClaims :: "RegisteredClaims \<Rightarrow> members" where
  "marshal_RegisteredClaims c =
     \<lparr>m_user_id = None, m_email = None, m_iss = omitempty (Issuer c),
      m_sub = omitempty (Subject c), m_exp = ExpiresAt c, m_nbf = NotBefore c,
      m_iat = IssuedAt c\<rparr>"

definition marshal_Claims :: "Claims \<Rightarrow> members" where
  "marshal_Claims c =
     \<lparr>m_user_id = Some (UserID c), m_email = Some (Email c), m_iss = omitempty (Issuer c),
      m_sub = omitempty (Subject c), m_exp = ExpiresAt c, m_nbf = NotBefore c,
      m_iat = IssuedAt c\<rparr>"

definition unmarshal_RegisteredClaims :: "members \<Rightarrow> RegisteredClaims" where
  "unmarshal_RegisteredClaims m =
     \<lparr>Issuer = zero_if_absent (m_iss m), Subject = zero_if_absent (m_sub m),
      ExpiresAt = m_exp m, NotBefore = m_nbf m, IssuedAt = m_iat m\<rparr>"

definition unmarshal_Claims :: "members \<Rightarrow> Claims" where
  "unmarshal_Claims m =
     \<lparr>Issuer = zero_if_absent (m_iss m), Subject = zero_if_absent (m_sub m),
      ExpiresAt = m_exp m, NotBefore = m_nbf m, IssuedAt = m_iat m,
      UserID = zero_if_absent (m_user_id m), Email = zero_if_absent (m_email m)\<rparr>"

text \<open>
  What \<^verbatim>\<open>Parser.ParseUnverified\<close> and \<^verbatim>\<open>DecodeSegment\<close> extract from a token string: the
  header's \<^verbatim>\<open>alg\<close>, the payload, the signed text (the first two segments as presented) and
  the decoded signature. Every failure to decode is one error here, \<^verbatim>\<open>ErrTokenMalformed\<close>;
  the callers in this repository never look at the kind of a parse error.
\<close>

record raw_token =
  hdr_alg :: "string option"
  payload :: members
  signing_input :: string
  signature :: string

text \<open>
  The library functions the model takes as arguments: the hash functions behind
  HS256/HS384/HS512, \<^verbatim>\<open>Token.SigningString\<close> (base64url of the JSON header and payload),
  the final concatenation with the encoded signature, and the decoding of a token string
  (\<open>None\<close>: not three segments, or a segment that is not base64url JSON of the expected
  shape).
\<close>

record jwt_lib =
  sha :: hash_fn
  SigningString :: "string \<Rightarrow> members \<Rightarrow> string"
  Compact :: "string \<Rightarrow> string \<Rightarrow> string"
  Decode :: "string \<Rightarrow> raw_token option"

datatype SigningMethod = SigningMethodHMAC hash_alg | SigningMethodOther string

definition GetSigningMethod :: "string \<Rightarrow> SigningMethod option" where
  "GetSigningMethod a =
     (if a = ''HS256'' then Some (SigningMethodHMAC SHA256)
      else if a = ''HS384'' then Some (SigningMethodHMAC SHA384)
      else if a = ''HS512'' then Some (SigningMethodHMAC SHA512)
      else if a \<in> set [''RS256'', ''RS384'', ''RS512'', ''PS256'', ''PS384'', ''PS512'',
                        ''ES256'', ''ES384'', ''ES512'', ''EdDSA'', ''none'']
      then Some (SigningMethodOther a)
      else None)"

definition Alg :: "SigningMethod \<Rightarrow> string" where
  "Alg m =
     (case m of
        SigningMethodHMAC SHA256 \<Rightarrow> ''HS256''
      | SigningMethodHMAC SHA384 \<Rightarrow> ''HS384''
      | SigningMethodHMAC SHA512 \<Rightarrow> ''HS512''
      | SigningMethodOther a \<Rightarrow> a)"

datatype claim_error = ErrTokenExpired | ErrTokenNotValidYet

datatype jwt_error =
    ErrTokenMalformed
  | ErrTokenUnverifiable
  | ErrTokenSignatureInvalid
  | ErrTokenInvalidClaims "claim_error list"
  | ErrInvalidKeyType

text \<open>
  \<^verbatim>\<open>Sign\<close> and \<^verbatim>\<open>Verify\<close> with a \<^verbatim>\<open>[]byte\<close> key, the only kind of key this program supplies;
  every method outside the HMAC family refuses such a key.
\<close>

definition Sign :: "hash_fn \<Rightarrow> SigningMethod \<Rightarrow> string \<Rightarrow> string \<Rightarrow> jwt_error + string" where
  "Sign H m signingString key =
     (case m of
        SigningMethodHMAC h \<Rightarrow> Inr (hmac_Sum H h key signingString)
      | SigningMethodOther a \<Rightarrow> Inl ErrInvalidKeyType)"

definition Verify :: "hash_fn \<Rightarrow> SigningMethod \<Rightarrow> string \<Rightarrow> string \<Rightarrow> string \<Rightarrow> jwt_error option" where
  "Verify H m signingString sig key =
     (case m of
        SigningMethodHMAC h \<Rightarrow>
          if sig = hmac_Sum H h key signingString then None else Some ErrTokenSignatureInvalid
      | SigningMethodOther a \<Rightarrow> Some ErrInvalidKeyType)"

text \<open>\<^verbatim>\<open>Token.SignedString\<close> of \<^verbatim>\<open>jwt.NewWithClaims(method, claims)\<close>.\<close>

definition SignedString :: "jwt_lib \<Rightarrow> SigningMethod \<Rightarrow> members \<Rightarrow> string \<Rightarrow> jwt_error + string" where
  "SignedString L m ms key =
     (let sstr = SigningString L (Alg m) ms
      in case Sign (sha L) m sstr key of
           Inl e \<Rightarrow> Inl e
         | Inr sig \<Rightarrow> Inr (Compact L sstr sig))"

text \<open>
  \<^verbatim>\<open>Validator.Validate\<close> as \<^verbatim>\<open>jwt.NewParser()\<close> with no option configures it: no leeway,
  \<^verbatim>\<open>exp\<close> and \<^verbatim>\<open>nbf\<close> checked when present, \<^verbatim>\<open>iat\<close> not checked, no expected issuer, subject
  or audience.
\<close>

definition Validate :: "Time \<Rightarrow> 'a RegisteredClaims_scheme \<Rightarrow> claim_error list" where
  "Validate now c =
     (case ExpiresAt c of
        None \<Rightarrow> []
      | Some e \<Rightarrow> if now < date_Time e then [] else [ErrTokenExpired])
     @ (case NotBefore c of
          None \<Rightarrow> []
        | Some n \<Rightarrow> if now < date_Time n then [ErrTokenNotValidYet] else [])"

record 'c Token =
  Method :: SigningMethod
  TokenClaims :: 'c
  Valid :: bool

text \<open>
  \<^verbatim>\<open>jwt.ParseWithClaims(tokenString, claims, keyFunc)\<close>; \<open>unmarshal\<close> stands for the
  \<^verbatim>\<open>claims\<close> argument, the struct the payload is decoded into.
\<close>

definition ParseWithClaims ::
  "jwt_lib \<Rightarrow> (members \<Rightarrow> 'a RegisteredClaims_scheme) \<Rightarrow> (SigningMethod \<Rightarrow> 'e + string)
     \<Rightarrow> Time \<Rightarrow> string \<Rightarrow> jwt_error + 'a RegisteredClaims_scheme Token" where
  "ParseWithClaims L unmarshal keyFunc now tokenString =
     (case Decode L tokenString of
        None \<Rightarrow> Inl ErrTokenMalformed
      | Some raw \<Rightarrow>
          (case hdr_alg raw of
             None \<Rightarrow> Inl ErrTokenUnverifiable
           | Some a \<Rightarrow>
               (case GetSigningMethod a of
                  None \<Rightarrow> Inl ErrTokenUnverifiable
                | Some m \<Rightarrow>
                    (case keyFunc m of
                       Inl e \<Rightarrow> Inl ErrTokenUnverifiable
                     | Inr key \<Rightarrow>
                         (case Verify (sha L) m (signing_input raw) (signature raw) key of
                            Some e \<Rightarrow> Inl ErrTokenSignatureInvalid
                          | None \<Rightarrow>
                              (let claims = unmarshal (payload raw)
                               in case Validate now claims of
                                    [] \<Rightarrow> Inr \<lparr>Method = m, TokenClaims = claims, Valid = True\<rparr>
                                  | e # es \<Rightarrow> Inl (ErrTokenInvalidClaims (e # es))))))))"

section \<open>The JWT manager (package auth)\<close>

record JWTManager =
  secret :: string
  accessTokenDuration :: Duration
  refreshTokenDuration :: Duration

definition NewJWTManager :: "string \<Rightarrow> Duration \<Rightarrow> Duration \<Rightarrow> JWTManager" where
  "NewJWTManager s accessDuration refreshDuration =
     \<lparr>secret = s, accessTokenDuration = accessDuration, refreshTokenDuration = refreshDuration\<rparr>"

text \<open>
  A user id is passed as its canonical text, \<^verbatim>\<open>userID.String()\<close>. \<^verbatim>\<open>time.Now()\<close> is the
  argument \<open>now\<close>.
\<close>

text \<open>The claims each generator builds (its local \<^verbatim>\<open>claims\<close>), then the signing.\<close>

definition accessClaims :: "JWTManager \<Rightarrow> string \<Rightarrow> string \<Rightarrow> Time \<Rightarrow> Claims" where
  "accessClaims j userID email now =
     \<lparr>Issuer = ''secure-task-api'', Subject = [],
      ExpiresAt = Some (NewNumericDate (now + accessTokenDuration j)),
      NotBefore = Some (NewNumericDate now),
      IssuedAt = Some (NewNumericDate now),
      UserID = userID, Email = email\<rparr>"

definition GenerateAccessToken ::
  "jwt_lib \<Rightarrow> JWTManager \<Rightarrow> string \<Rightarrow> string \<Rightarrow> Time \<Rightarrow> jwt_error + string" where
  "GenerateAccessToken L j userID email now =
     SignedString L (SigningMethodHMAC SHA256)
       (marshal_Claims (accessClaims j userID email now)) (secret j)"

definition refreshClaims :: "JWTManager \<Rightarrow> string \<Rightarrow> Time \<Rightarrow> RegisteredClaims" where
  "refreshClaims j userID now =
     \<lparr>Issuer = ''secure-task-api'', Subject = userID,
      ExpiresAt = Some (NewNumericDate (now + refreshTokenDuration j)),
      NotBefore = Some (NewNumericDate now),
      IssuedAt = Some (NewNumericDate now)\<rparr>"

definition GenerateRefreshToken ::
  "jwt_lib \<Rightarrow> JWTManager \<Rightarrow> string \<Rightarrow> Time \<Rightarrow> jwt_error + string" where
  "GenerateRefreshToken L j userID now =
     SignedString L (SigningMethodHMAC SHA256)
       (marshal_RegisteredClaims (refreshClaims j userID now)) (secret j)"

text \<open>The key function both validators pass to \<^verbatim>\<open>jwt.ParseWithClaims\<close>.\<close>

definition keyFunc :: "JWTManager \<Rightarrow> SigningMethod \<Rightarrow> jwt_error go_error + string" where
  "keyFunc j m =
     (case m of
        SigningMethodHMAC h \<Rightarrow> Inr (secret j)
      | SigningMethodOther a \<Rightarrow> Inl (Errorf (''unexpected signing method: '' @ a)))"

definition ValidateToken ::
  "jwt_lib \<Rightarrow> JWTManager \<Rightarrow> Time \<Rightarrow> string \<Rightarrow> jwt_error go_error + Claims" where
  "ValidateToken L j now tokenString =
     (case ParseWithClaims L unmarshal_Claims (keyFunc j) now tokenString of
        Inl err \<Rightarrow> Inl (Passed err)
      | Inr token \<Rightarrow>
          if Valid token then Inr (TokenClaims token) else Inl (Errorf ''invalid token''))"

definition GenerateTokenPair ::
  "jwt_lib \<Rightarrow> JWTManager \<Rightarrow> string \<Rightarrow> string \<Rightarrow> Time \<Rightarrow> jwt_error + string \<times> string" where
  "GenerateTokenPair L j userID email now =
     (case GenerateAccessToken L j userID email now of
        Inl err \<Rightarrow> Inl err
      | Inr accessToken \<Rightarrow>
          (case GenerateRefreshToken L j userID now of
             Inl err \<Rightarrow> Inl err
           | Inr refreshToken \<Rightarrow> Inr (accessToken, refreshToken)))"

definition ValidateRefreshToken ::
  "jwt_lib \<Rightarrow> JWTManager \<Rightarrow> Time \<Rightarrow> string \<Rightarrow> jwt_error go_error + string" where
  "ValidateRefreshToken L j now tokenString =
     (case ParseWithClaims L unmarshal_RegisteredClaims (keyFunc j) now tokenString of
        Inl err \<Rightarrow> Inl (Errorf_w ''failed to parse refresh token: '' err)
      | Inr token \<Rightarrow>
          (let claims = TokenClaims token
           in if \<not> Valid token then Inl (Errorf ''invalid refresh token'')
              else if Issuer claims \<noteq> ''secure-task-api'' then Inl (Errorf ''invalid token issuer'')
              else if (case ExpiresAt claims of None \<Rightarrow> True | Some e \<Rightarrow> now > date_Time e)
                then Inl (Errorf ''refresh token has expired'')
              else if Subject claims = [] then Inl (Errorf ''token missing subject'')
              else Inr (Subject claims)))"

section \<open>Package strings\<close>

text \<open>\<^verbatim>\<open>strings.SplitN(s, " ", 2)\<close>: cut at the first space, if there is one.\<close>

definition SplitN_space_2 :: "string \<Rightarrow> string list" where
  "SplitN_space_2 s =
     (if CHR '' '' \<in> set s
      then [takeWhile (\<lambda>c. c \<noteq> CHR '' '') s, drop 1 (dropWhile (\<lambda>c. c \<noteq> CHR '' '') s)]
      else [s])"

text \<open>
  \<^verbatim>\<open>unicode.IsSpace\<close> on UTF-8: the six ASCII spaces, U+0085 and U+00A0 (two bytes), and
  U+1680, U+2000 to U+200A, U+2028, U+2029, U+202F, U+205F, U+3000 (three bytes).
\<close>

definition isSpace1 :: "char \<Rightarrow> bool" where
  "isSpace1 a = (a \<in> set [CHR 0x09, CHR 0x0A, CHR 0x0B, CHR 0x0C, CHR 0x0D, CHR 0x20])"

definition isSpace2 :: "char \<Rightarrow> char \<Rightarrow> bool" where
  "isSpace2 a b = (a = CHR 0xC2 \<and> (b = CHR 0x85 \<or> b = CHR 0xA0))"

definition isSpace3 :: "char \<Rightarrow> char \<Rightarrow> char \<Rightarrow> bool" where
  "isSpace3 a b c =
     ((a = CHR 0xE1 \<and> b = CHR 0x9A \<and> c = CHR 0x80)
      \<or> (a = CHR 0xE2 \<and> b = CHR 0x80
          \<and> ((0x80 \<le> (of_char c :: nat) \<and> (of_char c :: nat) \<le> 0x8A)
              \<or> c = CHR 0xA8 \<or> c = CHR 0xA9 \<or> c = CHR 0xAF))
      \<or> (a = CHR 0xE2 \<and> b = CHR 0x81 \<and> c = CHR 0x9F)
      \<or> (a = CHR 0xE3 \<and> b = CHR 0x80 \<and> c = CHR 0x80))"

fun TrimLeftSpace :: "string \<Rightarrow> string" where
  "TrimLeftSpace (a # b # c # s) =
     (if isSpace1 a then TrimLeftSpace (b # c # s)
      else if isSpace2 a b then TrimLeftSpace (c # s)
      else if isSpace3 a b c then TrimLeftSpace s
      else a # b # c # s)"
| "TrimLeftSpace [a, b] =
     (if isSpace1 a then TrimLeftSpace [b] else if isSpace2 a b then [] else [a, b])"
| "TrimLeftSpace [a] = (if isSpace1 a then [] else [a])"
| "TrimLeftSpace [] = []"

text \<open>The same from the end, on the reversed string: \<open>a\<close> is the last byte.\<close>

fun TrimLeftSpace_rev :: "string \<Rightarrow> string" where
  "TrimLeftSpace_rev (a # b # c # s) =
     (if isSpace1 a then TrimLeftSpace_rev (b # c # s)
      else if isSpace2 b a then TrimLeftSpace_rev (c # s)
      else if isSpace3 c b a then TrimLeftSpace_rev s
      else a # b # c # s)"
| "TrimLeftSpace_rev [a, b] =
     (if isSpace1 a then TrimLeftSpace_rev [b] else if isSpace2 b a then [] else [a, b])"
| "TrimLeftSpace_rev [a] = (if isSpace1 a then [] else [a])"
| "TrimLeftSpace_rev [] = []"

definition TrimSpace :: "string \<Rightarrow> string" where
  "TrimSpace s = rev (TrimLeftSpace_rev (rev (TrimLeftSpace s)))"

section \<open>internal/middleware/middleware.go\<close>

text \<open>
  What a handler wrote: the status, the \<^verbatim>\<open>Content-Type\<close> header and the body. A body is
  raw bytes, or the JSON encoding of one of the structs of \<^verbatim>\<open>internal/models\<close>.
\<close>

record ErrorResponse =
  Error :: string
  Message :: string
  Timestamp :: Time
  StatusCode :: nat

record User =
  ID :: string
  user_Email :: string
  PasswordHash :: string
  Name :: string
  CreatedAt :: Time
  UpdatedAt :: Time

record AuthResponse =
  auth_User :: User
  Token :: string
  RefreshToken :: string

datatype body = Bytes string | ErrorJSON ErrorResponse | SuccessJSON AuthResponse

record response =
  status :: nat
  contentType :: string
  written :: body

text \<open>
  A request, as far as the gate reads it: the value of the \<^verbatim>\<open>Authorization\<close> header, if the
  header is there. The gate either responds itself, or calls \<^verbatim>\<open>next.ServeHTTP\<close> with the
  two context values.
\<close>

record request =
  Authorization :: "string option"

definition Header_Get_Authorization :: "request \<Rightarrow> string" where
  "Header_Get_Authorization r = (case Authorization r of None \<Rightarrow> [] | Some v \<Rightarrow> v)"

record context_values =
  userIDKey :: string
  emailKey :: string

datatype gate = Responded response | Next context_values

definition bearerToken :: "string \<Rightarrow> string" where
  "bearerToken header =
     (let parts = SplitN_space_2 header
      in if length parts \<noteq> 2 \<or> parts ! 0 \<noteq> ''Bearer'' then []
         else TrimSpace (parts ! 1))"

definition unauthorized :: "string \<Rightarrow> response" where
  \<open>unauthorized msg =
     \<lparr>status = 401, contentType = ''application/json'',
      written = Bytes (''{"error":"unauthorized","message":"'' @ msg @ ''"}'')\<rparr>\<close>

definition AuthMiddleware :: "jwt_lib \<Rightarrow> JWTManager \<Rightarrow> Time \<Rightarrow> request \<Rightarrow> gate" where
  "AuthMiddleware L jwtManager now r =
     (let authHeader = Header_Get_Authorization r
      in if authHeader = [] then Responded (unauthorized ''authorization header missing'')
         else
           let token = bearerToken authHeader
           in if token = [] then Responded (unauthorized ''invalid authorization header'')
              else
                (case ValidateToken L jwtManager now token of
                   Inl err \<Rightarrow> Responded (unauthorized ''invalid or expired token'')
                 | Inr claims \<Rightarrow> Next \<lparr>userIDKey = UserID claims, emailKey = Email claims\<rparr>))"

section \<open>pkg/utils and the Login handler\<close>

definition StatusText :: "nat \<Rightarrow> string" where
  "StatusText code =
     (if code = 200 then ''OK''
      else if code = 201 then ''Created''
      else if code = 400 then ''Bad Request''
      else if code = 401 then ''Unauthorized''
      else if code = 404 then ''Not Found''
      else if code = 500 then ''Internal Server Error''
      else if code = 503 then ''Service Unavailable''
      else [])"

definition JSONResponse :: "nat \<Rightarrow> body \<Rightarrow> response" where
  "JSONResponse code data = \<lparr>status = code, contentType = ''application/json'', written = data\<rparr>"

definition JSONError :: "Time \<Rightarrow> nat \<Rightarrow> string \<Rightarrow> response" where
  "JSONError now code message =
     JSONResponse code
       (ErrorJSON \<lparr>Error = StatusText code, Message = message, Timestamp = now,
                   StatusCode = code\<rparr>)"

definition JSONSuccess :: "nat \<Rightarrow> AuthResponse \<Rightarrow> response" where
  "JSONSuccess code data = JSONResponse code (SuccessJSON data)"

definition Unauthorized :: "Time \<Rightarrow> string \<Rightarrow> response" where
  "Unauthorized now message = JSONError now 401 message"

definition InternalServerError :: "Time \<Rightarrow> string \<Rightarrow> response" where
  "InternalServerError now message = JSONError now 500 message"

definition BadRequest :: "Time \<Rightarrow> string \<Rightarrow> response" where
  "BadRequest now message = JSONError now 400 message"

record LoginRequest =
  req_Email :: string
  req_Password :: string

text \<open>
  \<^verbatim>\<open>AuthHandler.Login\<close>. The body is \<open>None\<close> when \<^verbatim>\<open>utils.ParseJSON\<close> fails;
  \<open>GetByEmail\<close> is the user repository's lookup, \<open>Inl\<close> a database error and \<open>Inr None\<close>
  the \<^verbatim>\<open>nil, nil\<close> it returns when no row matches.
\<close>

definition Login ::
  "eks_fn \<Rightarrow> jwt_lib \<Rightarrow> JWTManager \<Rightarrow> Time \<Rightarrow> (string \<Rightarrow> string + User option)
     \<Rightarrow> LoginRequest option \<Rightarrow> response" where
  "Login eks L jwtManager now GetByEmail parsed =
     (case parsed of
        None \<Rightarrow> BadRequest now ''Invalid request body''
      | Some req \<Rightarrow>
          if req_Email req = [] \<or> req_Password req = []
          then BadRequest now ''Email and password are required''
          else
            (case GetByEmail (req_Email req) of
               Inl err \<Rightarrow> InternalServerError now ''Failed to login''
             | Inr None \<Rightarrow> Unauthorized now ''Invalid email or password''
             | Inr (Some user) \<Rightarrow>
                 (case CheckPassword eks (req_Password req) (PasswordHash user) of
                    Some err \<Rightarrow> Unauthorized now ''Invalid email or password''
                  | None \<Rightarrow>
                      (case GenerateTokenPair L jwtManager (ID user) (user_Email user) now of
                         Inl err \<Rightarrow> InternalServerError now ''Failed to login''
                       | Inr (accessToken, refreshToken) \<Rightarrow>
                           JSONSuccess 200
                             \<lparr>auth_User = \<lparr>ID = ID user, user_Email = user_Email user,
                                            PasswordHash = [], Name = Name user,
                                            CreatedAt = CreatedAt user,
                                            UpdatedAt = UpdatedAt user\<rparr>,
                              Token = accessToken, RefreshToken = refreshToken\<rparr>))))"

section \<open>Predicates used in the statements\<close>

text \<open>
  The codec restores what it encoded: decoding the compact form of a header with algorithm
  \<open>a\<close> and payload \<open>ms\<close> gives back both, the signed text and the signature.
\<close>

definition codec_ok :: "jwt_lib \<Rightarrow> string \<Rightarrow> members \<Rightarrow> bool" where
  "codec_ok L a ms =
     (\<forall>sig. Decode L (Compact L (SigningString L a ms) sig)
        = Some \<lparr>hdr_alg = Some a, payload = ms, signing_input = SigningString L a ms,
                signature = sig\<rparr>)"

text \<open>
  The header names an algorithm of the HMAC family and the signature is the tag of the
  signed text under the manager's secret.
\<close>

definition verified :: "jwt_lib \<Rightarrow> JWTManager \<Rightarrow> raw_token \<Rightarrow> bool" where
  "verified L j raw =
     (case hdr_alg raw of
        None \<Rightarrow> False
      | Some a \<Rightarrow>
          (case GetSigningMethod a of
             Some (SigningMethodHMAC h) \<Rightarrow>
               signature raw = hmac_Sum (sha L) h (secret j) (signing_input raw)
           | _ \<Rightarrow> False))"

text \<open>The clock lies before the expiry and not before the not-before time, where present.\<close>

definition in_window :: "Time \<Rightarrow> 'a RegisteredClaims_scheme \<Rightarrow> bool" where
  "in_window now c =
     ((case ExpiresAt c of None \<Rightarrow> True | Some e \<Rightarrow> now < date_Time e)
      \<and> (case NotBefore c of None \<Rightarrow> True | Some n \<Rightarrow> date_Time n \<le> now))"

text \<open>An ASCII byte that is not white space.\<close>

definition plain_byte :: "char \<Rightarrow> bool" where
  "plain_byte c = ((of_char c :: nat) < 0x80 \<and> \<not> isSpace1 c)"

section \<open>Sample arguments\<close>

text \<open>
  Concrete stand-ins for the library arguments, to run the model on explicit inputs. The
  digest keeps the non-zero key bytes; the hash function is the identity; the codec knows
  the tokens of a table (signed text, algorithm, payload) and writes a token as the signed
  text, a dot and the signature. No general result below depends on them.
\<close>

definition sample_eks :: eks_fn where
  "sample_eks c s k = Some (filter (\<lambda>x. x \<noteq> NUL) k)"

definition sample_salt :: string where
  "sample_salt = ''......................''"

definition table_lib :: "(string \<times> string \<times> members) list \<Rightarrow> jwt_lib" where
  "table_lib tbl =
     \<lparr>sha = (\<lambda>h m. m),
      SigningString =
        (\<lambda>a ms. case find (\<lambda>(t, a', ms'). a' = a \<and> ms' = ms) tbl of
                   Some (t, a', ms') \<Rightarrow> t
                 | None \<Rightarrow> []),
      Compact = (\<lambda>sstr sig. sstr @ ''.'' @ sig),
      Decode =
        (\<lambda>tok. case find (\<lambda>(t, a, ms). t = takeWhile (\<lambda>c. c \<noteq> CHR ''.'') tok) tbl of
                  Some (t, a, ms) \<Rightarrow>
                    Some \<lparr>hdr_alg = Some a, payload = ms, signing_input = t,
                          signature = drop 1 (dropWhile (\<lambda>c. c \<noteq> CHR ''.'') tok)\<rparr>
                | None \<Rightarrow> None)\<rparr>"

definition sample_manager :: JWTManager where
  "sample_manager = NewJWTManager ''k'' 900000000000 604800000000000"

definition sample_t0 :: Time where
  "sample_t0 = 1700000000000000000"

definition foreign_claims :: Claims where
  "foreign_claims =
     \<lparr>Issuer = ''other-service'', Subject = [], ExpiresAt = Some 1700000900,
      NotBefore = Some 1700000000, IssuedAt = Some 1700000000,
      UserID = ''u1'', Email = ''a@b.com''\<rparr>"

definition early_claims :: RegisteredClaims where
  "early_claims =
     \<lparr>Issuer = ''secure-task-api'', Subject = ''u1'', ExpiresAt = Some 1700604800,
      NotBefore = Some 1700003600, IssuedAt = Some 1700000000\<rparr>"

definition sample_lib :: jwt_lib where
  "sample_lib =
     table_lib
       [(''acc'', ''HS256'', marshal_Claims (accessClaims sample_manager ''u1'' ''a@b.com'' sample_t0)),
        (''ref'', ''HS256'', marshal_RegisteredClaims (refreshClaims sample_manager ''u1'' sample_t0)),
        (''oth'', ''HS256'', marshal_Claims foreign_claims),
        (''nbf'', ''HS256'', marshal_RegisteredClaims early_claims)]"

text \<open>
  A second library and manager for secrets longer than the HMAC block: the library of
  \<open>sample_lib\<close> with a hash function that returns the first 32 bytes of its argument, and a
  manager whose secret has 65 bytes.
\<close>

definition short_lib :: jwt_lib where
  "short_lib = sample_lib\<lparr>sha := (\<lambda>h m. take 32 m)\<rparr>"

definition long_manager :: JWTManager where
  "long_manager = NewJWTManager (replicate 65 (CHR ''a'')) 900000000000 604800000000000"

section \<open>Passwords\<close>

lemma length_copy_into: "length (copy_into n s) = n"
  by (simp add: copy_into_def)

lemma copy_into_idem: "copy_into n (copy_into n s) = copy_into n s"
  by (simp add: copy_into_def)

lemma copy_into_exact: "length s = n \<Longrightarrow> copy_into n s = s"
  by (simp add: copy_into_def)

lemma sprintf_10: "sprintf_02d 10 = ''10''"
  by code_simp

lemma atoi2_10: "atoi2 (CHR ''1'') (CHR ''0'') = Some 10"
  by (simp add: atoi2_def is_digit_def digit_val_def)

lemma Hash_generated:
  "Hash \<lparr>hash = d, salt = rnd, cost = 10, major = CHR ''2'', minor = CHR ''a''\<rparr>
     = ''$2a$10$'' @ copy_into 22 rnd @ copy_into 31 d"
  by (simp add: Hash_def NUL_def sprintf_10 encodedSaltSize_def encodedHashSize_def)

lemma newFromHash_generated:
  assumes "length s = 22" "length h = 31"
  shows "newFromHash (''$2a$10$'' @ s @ h)
     = Inr \<lparr>hash = h, salt = s, cost = 10, major = CHR ''2'', minor = CHR ''a''\<rparr>"
  using assms
  by (simp add: newFromHash_def minHashSize_def atoi2_10 checkCost_def MinCost_def MaxCost_def
      encodedSaltSize_def Let_def)

lemma GenerateFromPassword_DefaultCost:
  "GenerateFromPassword eks rnd p DefaultCost =
     (if length p > 72 then Inl ErrPasswordTooLong
      else case eks 10 rnd (bcrypt_key p) of
             None \<Rightarrow> Inl SaltDecodeError
           | Some d \<Rightarrow> Inr (''$2a$10$'' @ copy_into 22 rnd @ copy_into 31 d))"
  by (simp add: GenerateFromPassword_def DefaultCost_def MinCost_def MaxCost_def checkCost_def
      bcrypt_def Hash_generated split: option.splits)

lemma HashPassword_Inr:
  "HashPassword eks rnd p = Inr h \<longleftrightarrow>
     (length p \<le> 72 \<and> (\<exists>d. eks 10 rnd (bcrypt_key p) = Some d
        \<and> h = ''$2a$10$'' @ copy_into 22 rnd @ copy_into 31 d))"
  by (auto simp: HashPassword_def GenerateFromPassword_DefaultCost split: option.splits)

lemma CompareHashAndPassword_generated:
  assumes "length rnd = 22"
  shows "CompareHashAndPassword eks (''$2a$10$'' @ copy_into 22 rnd @ copy_into 31 d) p =
     (case eks 10 rnd (bcrypt_key p) of
        None \<Rightarrow> Some SaltDecodeError
      | Some d' \<Rightarrow> if copy_into 31 d' = copy_into 31 d then None
                   else Some ErrMismatchedHashAndPassword)"
proof -
  have s: "copy_into 22 rnd = rnd"
    using assms by (rule copy_into_exact)
  have n: "newFromHash (''$2a$10$'' @ rnd @ copy_into 31 d)
      = Inr \<lparr>hash = copy_into 31 d, salt = rnd, cost = 10, major = CHR ''2'', minor = CHR ''a''\<rparr>"
    using assms by (intro newFromHash_generated) (simp_all add: length_copy_into)
  show ?thesis
    unfolding s CompareHashAndPassword_def n
    by (auto simp: bcrypt_def Hash_generated copy_into_idem s split: option.splits)
qed

lemma bcrypt_key_long: "72 \<le> length p \<Longrightarrow> bcrypt_key p = take 72 p"
proof -
  assume a: "72 \<le> length p"
  have "replicate 72 (p @ [NUL]) = (p @ [NUL]) # replicate 71 (p @ [NUL])"
    by (simp add: numeral_eq_Suc)
  then show ?thesis using a by (simp add: bcrypt_key_def)
qed

lemma CompareHashAndPassword_short:
  "length h < 59 \<Longrightarrow> CompareHashAndPassword eks h p = Some ErrHashTooShort"
  by (simp add: CompareHashAndPassword_def newFromHash_def minHashSize_def)

text \<open>
  Claim C2 (password round trip), as amended. Whenever \<^verbatim>\<open>HashPassword\<close> returns a credential
  for \<open>p2\<close> (it refuses a plaintext of more than 72 bytes), \<^verbatim>\<open>CheckPassword\<close> accepts \<open>p2\<close>
  against it. Another plaintext \<open>p1\<close> is accepted against that credential exactly when its
  digest under the credential's salt and cost agrees with the stored one on the 31 bytes
  kept; this is the case for every \<open>p1\<close> with the same 72 key bytes as \<open>p2\<close>, equal to \<open>p2\<close>
  or not, and in every other case verification fails.
\<close>

theorem CheckPassword_HashPassword:
  assumes "length rnd = 22" and "HashPassword eks rnd p2 = Inr h"
  shows "CheckPassword eks p2 h = None
     \<and> (CheckPassword eks p1 h = None \<longleftrightarrow>
          (\<exists>d1 d2. eks 10 rnd (bcrypt_key p1) = Some d1 \<and> eks 10 rnd (bcrypt_key p2) = Some d2
             \<and> copy_into 31 d1 = copy_into 31 d2))
     \<and> (bcrypt_key p1 = bcrypt_key p2 \<longrightarrow> CheckPassword eks p1 h = None)"
proof -
  from assms(2) obtain d where d: "eks 10 rnd (bcrypt_key p2) = Some d"
    and h: "h = ''$2a$10$'' @ copy_into 22 rnd @ copy_into 31 d"
    unfolding HashPassword_Inr by blast
  have c: "\<And>p. CheckPassword eks p h = None \<longleftrightarrow>
      (\<exists>d1. eks 10 rnd (bcrypt_key p) = Some d1 \<and> copy_into 31 d1 = copy_into 31 d)"
    unfolding CheckPassword_def h CompareHashAndPassword_generated [OF assms(1)]
    by (auto split: option.splits)
  show ?thesis
    using d by (auto simp: c)
qed

lemma key_secret1: "filter (\<lambda>x. x \<noteq> NUL) (bcrypt_key ''secret1'') = concat (replicate 9 ''secret1'')"
  by code_simp
lemma key_secret2: "filter (\<lambda>x. x \<noteq> NUL) (bcrypt_key ''secret2'') = concat (replicate 9 ''secret2'')"
  by code_simp

lemma hash_secret1:
  "HashPassword sample_eks sample_salt ''secret1''
     = Inr ''$2a$10$......................secret1secret1secret1secret1sec''"
  unfolding HashPassword_Inr sample_eks_def key_secret1
  by (simp add: sample_salt_def copy_into_def numeral_eq_Suc)

theorem CheckPassword_HashPassword_witness:
  "length sample_salt = 22
   \<and> HashPassword sample_eks sample_salt ''secret1''
       = Inr ''$2a$10$......................secret1secret1secret1secret1sec''
   \<and> CheckPassword sample_eks ''secret1''
       ''$2a$10$......................secret1secret1secret1secret1sec'' = None
   \<and> CheckPassword sample_eks ''secret2''
       ''$2a$10$......................secret1secret1secret1secret1sec'' \<noteq> None"
proof -
  have l: "length sample_salt = 22"
    by (simp add: sample_salt_def)
  have ne: "copy_into 31 (concat (replicate 9 ''secret2''))
      \<noteq> copy_into 31 (concat (replicate 9 ''secret1''))"
    by (simp add: copy_into_def numeral_eq_Suc)
  show ?thesis
    using CheckPassword_HashPassword [OF l hash_secret1, of "''secret2''"] l hash_secret1 ne
    by (simp add: sample_eks_def key_secret1 key_secret2)
qed


lemma key_a72: "bcrypt_key (replicate 72 (CHR ''a'') @ q) = replicate 72 (CHR ''a'')"
  by (simp add: bcrypt_key_long)

lemma digest_a72:
  "copy_into 31 (filter (\<lambda>x. x \<noteq> NUL) (replicate 72 (CHR ''a'')))
     = ''aaaaaaaaaaaaaaaaaaaaaaaaaaaaaaa''"
  by (simp add: copy_into_def NUL_def numeral_eq_Suc)

lemma sample_beyond_72_bytes:
  "replicate 72 (CHR ''a'') @ ''b'' \<noteq> replicate 72 (CHR ''a'')
   \<and> HashPassword sample_eks sample_salt (replicate 72 (CHR ''a''))
       = Inr ''$2a$10$......................aaaaaaaaaaaaaaaaaaaaaaaaaaaaaaa''
   \<and> CheckPassword sample_eks (replicate 72 (CHR ''a'') @ ''b'')
       ''$2a$10$......................aaaaaaaaaaaaaaaaaaaaaaaaaaaaaaa'' = None"
proof -
  have l: "length sample_salt = 22"
    by (simp add: sample_salt_def)
  have s: "copy_into 22 sample_salt = ''......................''"
    using copy_into_exact [OF l] by (simp add: sample_salt_def)
  have k: "bcrypt_key (replicate 72 (CHR ''a'')) = replicate 72 (CHR ''a'')"
    using key_a72 [of "[]"] by simp
  have "HashPassword sample_eks sample_salt (replicate 72 (CHR ''a''))
       = Inr (''$2a$10$'' @ copy_into 22 sample_salt
           @ copy_into 31 (filter (\<lambda>x. x \<noteq> NUL) (replicate 72 (CHR ''a''))))"
    unfolding HashPassword_Inr sample_eks_def k by simp
  then have h: "HashPassword sample_eks sample_salt (replicate 72 (CHR ''a''))
       = Inr ''$2a$10$......................aaaaaaaaaaaaaaaaaaaaaaaaaaaaaaa''"
    unfolding s digest_a72 by simp
  have c: "CompareHashAndPassword sample_eks
      (''$2a$10$'' @ copy_into 22 sample_salt
         @ copy_into 31 (filter (\<lambda>x. x \<noteq> NUL) (replicate 72 (CHR ''a''))))
      (replicate 72 (CHR ''a'') @ ''b'') = None"
    unfolding CompareHashAndPassword_generated [OF l] sample_eks_def key_a72 by simp
  have "CheckPassword sample_eks (replicate 72 (CHR ''a'') @ ''b'')
       ''$2a$10$......................aaaaaaaaaaaaaaaaaaaaaaaaaaaaaaa'' = None"
    using c unfolding s digest_a72 by (simp add: CheckPassword_def)
  with h show ?thesis by simp
qed

lemma CheckPassword_key_only:
  "bcrypt_key p1 = bcrypt_key p2 \<Longrightarrow> CheckPassword eks p1 h = CheckPassword eks p2 h"
proof -
  assume "bcrypt_key p1 = bcrypt_key p2"
  then have b: "bcrypt eks p1 = bcrypt eks p2"
    by (simp add: bcrypt_def fun_eq_iff)
  show ?thesis
    unfolding CheckPassword_def CompareHashAndPassword_def b by (rule refl)
qed

text \<open>
  Against C2 as stated: a password of 72 bytes and the same password with one more byte
  are different plaintexts with the same key bytes, so \<^verbatim>\<open>CheckPassword\<close> cannot tell them
  apart, for any digest function and any credential; with the sample digest, the longer
  one verifies against the credential of the shorter.
\<close>

theorem CheckPassword_beyond_72_bytes:
  "replicate 72 (CHR ''a'') @ ''b'' \<noteq> replicate 72 (CHR ''a'')
   \<and> (\<forall>eks h. CheckPassword eks (replicate 72 (CHR ''a'') @ ''b'') h
                = CheckPassword eks (replicate 72 (CHR ''a'')) h)
   \<and> HashPassword sample_eks sample_salt (replicate 72 (CHR ''a''))
       = Inr ''$2a$10$......................aaaaaaaaaaaaaaaaaaaaaaaaaaaaaaa''
   \<and> CheckPassword sample_eks (replicate 72 (CHR ''a'') @ ''b'')
       ''$2a$10$......................aaaaaaaaaaaaaaaaaaaaaaaaaaaaaaa'' = None"
proof -
  have k: "bcrypt_key (replicate 72 (CHR ''a'') @ ''b'') = bcrypt_key (replicate 72 (CHR ''a''))"
    using key_a72 [of "''b''"] key_a72 [of "[]"] by simp
  have g: "\<forall>eks h. CheckPassword eks (replicate 72 (CHR ''a'') @ ''b'') h
                = CheckPassword eks (replicate 72 (CHR ''a'')) h"
    using CheckPassword_key_only [OF k] by blast
  show ?thesis
    using sample_beyond_72_bytes g by blast
qed

text \<open>
  Claim C5 (verification failures), as amended. \<^verbatim>\<open>CheckPassword\<close> has a single failure
  value: whatever \<^verbatim>\<open>bcrypt.CompareHashAndPassword\<close> reports, the caller gets the error
  \<^verbatim>\<open>password does not match\<close>. A stored credential that does not parse is reported by that
  same error, so a caller cannot tell it from a wrong password.
\<close>

theorem CheckPassword_single_error:
  "CheckPassword eks p h =
     (if CompareHashAndPassword eks h p = None then None
      else Some (Errorf ''password does not match''))
   \<and> (isl (newFromHash h) \<longrightarrow> CheckPassword eks p h = Some (Errorf ''password does not match''))"
  by (auto simp: CheckPassword_def CompareHashAndPassword_def split: option.splits sum.splits)

theorem CheckPassword_single_error_witness:
  "isl (newFromHash ''not-a-bcrypt-hash'')
   \<and> CheckPassword sample_eks ''secret1'' ''not-a-bcrypt-hash''
       = Some (Errorf ''password does not match'')"
proof -
  have a: "isl (newFromHash ''not-a-bcrypt-hash'')"
    by (simp add: newFromHash_def minHashSize_def)
  have "isl (newFromHash ''not-a-bcrypt-hash'')
      \<longrightarrow> CheckPassword sample_eks ''secret1'' ''not-a-bcrypt-hash''
            = Some (Errorf ''password does not match'')"
    using CheckPassword_single_error [of sample_eks "''secret1''" "''not-a-bcrypt-hash''"]
    by (rule conjunct2)
  with a show ?thesis by blast
qed

lemma mismatch_secret2:
  "CompareHashAndPassword sample_eks
     ''$2a$10$......................secret1secret1secret1secret1sec'' ''secret2''
   = Some ErrMismatchedHashAndPassword"
proof -
  have l: "length sample_salt = 22"
    by (simp add: sample_salt_def)
  have d: "copy_into 31 (concat (replicate 9 ''secret1'')) = ''secret1secret1secret1secret1sec''"
    by (simp add: copy_into_def numeral_eq_Suc)
  have ne: "copy_into 31 (concat (replicate 9 ''secret2''))
      \<noteq> copy_into 31 (concat (replicate 9 ''secret1''))"
    by (simp add: copy_into_def numeral_eq_Suc)
  have "CompareHashAndPassword sample_eks
      (''$2a$10$'' @ copy_into 22 sample_salt @ copy_into 31 (concat (replicate 9 ''secret1'')))
      ''secret2'' = Some ErrMismatchedHashAndPassword"
    unfolding CompareHashAndPassword_generated [OF l] sample_eks_def key_secret2
    using ne by simp
  then show ?thesis
    unfolding d copy_into_exact [OF l] by (simp add: sample_salt_def)
qed

text \<open>
  Against C5 as stated: a credential too short to be a bcrypt hash and a well-formed
  credential of another password fail inside bcrypt for different reasons, and
  \<^verbatim>\<open>CheckPassword\<close> returns the same value for both.
\<close>

theorem CheckPassword_malformed_like_mismatch:
  "CompareHashAndPassword sample_eks [] ''secret1'' = Some ErrHashTooShort
   \<and> CompareHashAndPassword sample_eks
       ''$2a$10$......................secret1secret1secret1secret1sec'' ''secret2''
     = Some ErrMismatchedHashAndPassword
   \<and> CheckPassword sample_eks ''secret1'' []
     = CheckPassword sample_eks ''secret2''
         ''$2a$10$......................secret1secret1secret1secret1sec''"
  by (simp add: mismatch_secret2 CompareHashAndPassword_short CheckPassword_def)

section \<open>Tokens\<close>

lemma Validate_Nil_iff: "Validate now c = [] \<longleftrightarrow> in_window now c"
  by (auto simp: Validate_def in_window_def split: option.splits)

lemma ParseWithClaims_keyFunc:
  "ParseWithClaims L un (keyFunc j) now tok =
     (case Decode L tok of
        None \<Rightarrow> Inl ErrTokenMalformed
      | Some raw \<Rightarrow>
          if verified L j raw then
            (case Validate now (un (payload raw)) of
               [] \<Rightarrow> Inr \<lparr>Method = the (GetSigningMethod (the (hdr_alg raw))),
                          TokenClaims = un (payload raw), Valid = True\<rparr>
             | e # es \<Rightarrow> Inl (ErrTokenInvalidClaims (e # es)))
          else if (case hdr_alg raw of None \<Rightarrow> False | Some a \<Rightarrow>
                     (case GetSigningMethod a of Some (SigningMethodHMAC h) \<Rightarrow> True | _ \<Rightarrow> False))
          then Inl ErrTokenSignatureInvalid
          else Inl ErrTokenUnverifiable)"
  by (simp add: ParseWithClaims_def verified_def keyFunc_def Verify_def Let_def
      split: option.splits SigningMethod.splits list.splits)

lemma ValidateToken_Inr_iff:
  "ValidateToken L j now tok = Inr c \<longleftrightarrow>
     (\<exists>raw. Decode L tok = Some raw \<and> verified L j raw
        \<and> in_window now (unmarshal_Claims (payload raw)) \<and> c = unmarshal_Claims (payload raw))"
  by (auto simp: ValidateToken_def ParseWithClaims_keyFunc Validate_Nil_iff [symmetric]
      split: option.splits list.splits)

lemma ValidateRefreshToken_Inr_iff:
  "ValidateRefreshToken L j now tok = Inr s \<longleftrightarrow>
     (\<exists>raw. Decode L tok = Some raw \<and> verified L j raw
        \<and> in_window now (unmarshal_RegisteredClaims (payload raw))
        \<and> Issuer (unmarshal_RegisteredClaims (payload raw)) = ''secure-task-api''
        \<and> ExpiresAt (unmarshal_RegisteredClaims (payload raw)) \<noteq> None
        \<and> s = Subject (unmarshal_RegisteredClaims (payload raw)) \<and> s \<noteq> [])"
  by (auto simp: ValidateRefreshToken_def ParseWithClaims_keyFunc Validate_def
      in_window_def Let_def
      split: option.splits list.splits if_splits)

lemma SignedString_HS256:
  "SignedString L (SigningMethodHMAC SHA256) ms key =
     Inr (Compact L (SigningString L ''HS256'' ms)
            (hmac_Sum (sha L) SHA256 key (SigningString L ''HS256'' ms)))"
  by (simp add: SignedString_def Sign_def Alg_def Let_def)

lemma GetSigningMethod_HS256: "GetSigningMethod ''HS256'' = Some (SigningMethodHMAC SHA256)"
  by (simp add: GetSigningMethod_def)

lemma trunc_le: "date_Time (NewNumericDate t) \<le> t"
  by (simp add: date_Time_def NewNumericDate_def)

lemma SplitN_Bearer:
  "(length (SplitN_space_2 header) = 2 \<and> SplitN_space_2 header ! 0 = ''Bearer'') \<longleftrightarrow>
     (\<exists>rest. header = ''Bearer '' @ rest)"
proof
  assume a: "length (SplitN_space_2 header) = 2 \<and> SplitN_space_2 header ! 0 = ''Bearer''"
  then have sp: "CHR '' '' \<in> set header"
    by (auto simp: SplitN_space_2_def split: if_splits)
  with a have tw: "takeWhile (\<lambda>c. c \<noteq> CHR '' '') header = ''Bearer''"
    by (simp add: SplitN_space_2_def)
  from sp obtain d ds where dw: "dropWhile (\<lambda>c. c \<noteq> CHR '' '') header = d # ds"
    by (cases "dropWhile (\<lambda>c. c \<noteq> CHR '' '') header") (auto simp: dropWhile_eq_Nil_conv)
  then have "d = CHR '' ''"
    using hd_dropWhile [of "\<lambda>c. c \<noteq> CHR '' ''" header] by auto
  with tw dw have "header = ''Bearer'' @ CHR '' '' # ds"
    using takeWhile_dropWhile_id [of "\<lambda>c. c \<noteq> CHR '' ''" header] by simp
  then show "\<exists>rest. header = ''Bearer '' @ rest" by simp
next
  assume "\<exists>rest. header = ''Bearer '' @ rest"
  then show "length (SplitN_space_2 header) = 2 \<and> SplitN_space_2 header ! 0 = ''Bearer''"
    by (auto simp: SplitN_space_2_def)
qed

lemma bearerToken_Bearer: "bearerToken (''Bearer '' @ rest) = TrimSpace rest"
  by (simp add: bearerToken_def SplitN_space_2_def)

lemma bearerToken_eq:
  "bearerToken header = t \<longleftrightarrow>
     ((\<exists>rest. header = ''Bearer '' @ rest \<and> t = TrimSpace rest)
      \<or> (\<not> (\<exists>rest. header = ''Bearer '' @ rest) \<and> t = []))"
proof (cases "\<exists>rest. header = ''Bearer '' @ rest")
  case True
  then obtain rest where h: "header = ''Bearer '' @ rest" by blast
  have "bearerToken header = TrimSpace rest"
    unfolding h by (rule bearerToken_Bearer)
  then show ?thesis using h by auto
next
  case False
  then have "\<not> (length (SplitN_space_2 header) = 2 \<and> SplitN_space_2 header ! 0 = ''Bearer'')"
    by (simp only: SplitN_Bearer not_False_eq_True)
  then have "bearerToken header = []"
    by (auto simp: bearerToken_def Let_def)
  with False show ?thesis by auto
qed

lemma zero_if_absent_omitempty: "zero_if_absent (omitempty s) = s"
  by (simp add: zero_if_absent_def omitempty_def)

lemma zero_if_absent_simps: "zero_if_absent (Some s) = s" "zero_if_absent None = []"
  by (simp_all add: zero_if_absent_def)

lemma unmarshal_marshal_Claims: "unmarshal_Claims (marshal_Claims c) = c"
  by (simp add: unmarshal_Claims_def marshal_Claims_def zero_if_absent_omitempty
      zero_if_absent_simps)

lemma unmarshal_marshal_RegisteredClaims:
  "unmarshal_RegisteredClaims (marshal_RegisteredClaims c) = c"
  by (simp add: unmarshal_RegisteredClaims_def marshal_RegisteredClaims_def
      zero_if_absent_omitempty)

lemma unmarshal_Claims_marshal_RegisteredClaims:
  "unmarshal_Claims (marshal_RegisteredClaims c) =
     \<lparr>Issuer = Issuer c, Subject = Subject c, ExpiresAt = ExpiresAt c, NotBefore = NotBefore c,
      IssuedAt = IssuedAt c, UserID = [], Email = []\<rparr>"
  by (simp add: unmarshal_Claims_def marshal_RegisteredClaims_def zero_if_absent_omitempty
      zero_if_absent_simps)

lemma unmarshal_RegisteredClaims_marshal_Claims:
  "unmarshal_RegisteredClaims (marshal_Claims c) =
     \<lparr>Issuer = Issuer c, Subject = Subject c, ExpiresAt = ExpiresAt c, NotBefore = NotBefore c,
      IssuedAt = IssuedAt c\<rparr>"
  by (simp add: unmarshal_RegisteredClaims_def marshal_Claims_def zero_if_absent_omitempty)

lemma Decode_signed:
  assumes "codec_ok L ''HS256'' ms"
    and "SignedString L (SigningMethodHMAC SHA256) ms key = Inr tok"
  shows "Decode L tok =
     Some \<lparr>hdr_alg = Some ''HS256'', payload = ms,
           signing_input = SigningString L ''HS256'' ms,
           signature = hmac_Sum (sha L) SHA256 key (SigningString L ''HS256'' ms)\<rparr>"
  using assms by (auto simp: codec_ok_def SignedString_HS256)

lemma verified_HS256:
  "verified L j \<lparr>hdr_alg = Some ''HS256'', payload = ms, signing_input = t, signature = sg\<rparr>
     \<longleftrightarrow> sg = hmac_Sum (sha L) SHA256 (secret j) t"
  by (simp add: verified_def GetSigningMethod_HS256)

text \<open>What the two validators return on a token signed with HS256 under any key.\<close>

lemma ValidateToken_signed:
  assumes "codec_ok L ''HS256'' ms"
    and "SignedString L (SigningMethodHMAC SHA256) ms key = Inr tok"
  shows "ValidateToken L j now tok =
     (if hmac_Sum (sha L) SHA256 key (SigningString L ''HS256'' ms)
           = hmac_Sum (sha L) SHA256 (secret j) (SigningString L ''HS256'' ms)
      then (if Validate now (unmarshal_Claims ms) = [] then Inr (unmarshal_Claims ms)
            else Inl (Passed (ErrTokenInvalidClaims (Validate now (unmarshal_Claims ms)))))
      else Inl (Passed ErrTokenSignatureInvalid))"
  unfolding ValidateToken_def ParseWithClaims_keyFunc Decode_signed [OF assms]
  by (simp add: verified_HS256 GetSigningMethod_HS256 split: list.splits)

lemma ValidateRefreshToken_signed_other_key:
  assumes "codec_ok L ''HS256'' ms"
    and "SignedString L (SigningMethodHMAC SHA256) ms key = Inr tok"
    and "hmac_Sum (sha L) SHA256 key (SigningString L ''HS256'' ms)
           \<noteq> hmac_Sum (sha L) SHA256 (secret j) (SigningString L ''HS256'' ms)"
  shows "ValidateRefreshToken L j now tok =
     Inl (Errorf_w ''failed to parse refresh token: '' ErrTokenSignatureInvalid)"
  unfolding ValidateRefreshToken_def ParseWithClaims_keyFunc Decode_signed [OF assms(1,2)]
  using assms(3) by (simp add: verified_HS256 GetSigningMethod_HS256)

lemma Validate_accessClaims:
  "Validate now (accessClaims j u e t0) =
     (if now < date_Time (NewNumericDate (t0 + accessTokenDuration j)) then [] else [ErrTokenExpired])
     @ (if now < date_Time (NewNumericDate t0) then [ErrTokenNotValidYet] else [])"
  by (simp add: Validate_def accessClaims_def)

lemma Validate_refreshClaims:
  "Validate now (unmarshal_Claims (marshal_RegisteredClaims (refreshClaims j u t0))) =
     (if now < date_Time (NewNumericDate (t0 + refreshTokenDuration j)) then [] else [ErrTokenExpired])
     @ (if now < date_Time (NewNumericDate t0) then [ErrTokenNotValidYet] else [])"
  by (simp add: Validate_def refreshClaims_def unmarshal_Claims_marshal_RegisteredClaims)

lemma ValidateToken_generated_access:
  assumes "codec_ok L ''HS256'' (marshal_Claims (accessClaims j u e t0))"
    and "GenerateAccessToken L j u e t0 = Inr tok"
  shows "ValidateToken L j now tok =
     (if Validate now (accessClaims j u e t0) = [] then Inr (accessClaims j u e t0)
      else Inl (Passed (ErrTokenInvalidClaims (Validate now (accessClaims j u e t0)))))"
  using ValidateToken_signed [OF assms(1) assms(2) [unfolded GenerateAccessToken_def], of j now]
  by (simp add: unmarshal_marshal_Claims)

lemma sample_codec_access:
  "codec_ok sample_lib ''HS256''
     (marshal_Claims (accessClaims sample_manager ''u1'' ''a@b.com'' sample_t0))"
  unfolding codec_ok_def sample_lib_def table_lib_def by simp

lemma sample_codec_refresh:
  "codec_ok sample_lib ''HS256''
     (marshal_RegisteredClaims (refreshClaims sample_manager ''u1'' sample_t0))"
  unfolding codec_ok_def sample_lib_def table_lib_def
  by (simp add: marshal_Claims_def marshal_RegisteredClaims_def)

lemma sample_codec_foreign: "codec_ok sample_lib ''HS256'' (marshal_Claims foreign_claims)"
  unfolding codec_ok_def sample_lib_def table_lib_def
  by (simp add: marshal_Claims_def marshal_RegisteredClaims_def foreign_claims_def
      accessClaims_def refreshClaims_def omitempty_def)

lemma sample_codec_early: "codec_ok sample_lib ''HS256'' (marshal_RegisteredClaims early_claims)"
  unfolding codec_ok_def sample_lib_def table_lib_def
  by (simp add: marshal_Claims_def marshal_RegisteredClaims_def foreign_claims_def
      early_claims_def accessClaims_def refreshClaims_def omitempty_def NewNumericDate_def
      sample_t0_def sample_manager_def NewJWTManager_def)


lemma in_window_foreign: "in_window (sample_t0 + 5) foreign_claims"
  by (simp add: in_window_def foreign_claims_def sample_t0_def date_Time_def)

text \<open>
  Claim C1 (the access-token validator checks the issuer). The code does not: a token
  signed with the manager's secret whose dates admit the current time is accepted with the
  claims it carries, whatever its issuer. \<^verbatim>\<open>ValidateToken\<close> passes no issuer option to the
  parser and, unlike \<^verbatim>\<open>ValidateRefreshToken\<close>, does not compare the issuer itself.
\<close>

theorem ValidateToken_ignores_issuer:
  assumes "codec_ok L ''HS256'' (marshal_Claims c)"
    and "SignedString L (SigningMethodHMAC SHA256) (marshal_Claims c) (secret j) = Inr tok"
    and "in_window now c"
  shows "ValidateToken L j now tok = Inr c"
  using ValidateToken_signed [OF assms(1,2), of j now] assms(3)
  by (simp add: unmarshal_marshal_Claims Validate_Nil_iff)

theorem ValidateToken_ignores_issuer_witness:
  "codec_ok sample_lib ''HS256'' (marshal_Claims foreign_claims)
   \<and> in_window (sample_t0 + 5) foreign_claims
   \<and> Issuer foreign_claims \<noteq> ''secure-task-api''
   \<and> (\<exists>tok. SignedString sample_lib (SigningMethodHMAC SHA256) (marshal_Claims foreign_claims)
                 (secret sample_manager) = Inr tok
          \<and> ValidateToken sample_lib sample_manager (sample_t0 + 5) tok = Inr foreign_claims)"
proof -
  obtain tok where t: "SignedString sample_lib (SigningMethodHMAC SHA256)
      (marshal_Claims foreign_claims) (secret sample_manager) = Inr tok"
    by (simp add: SignedString_HS256)
  have "ValidateToken sample_lib sample_manager (sample_t0 + 5) tok = Inr foreign_claims"
    using sample_codec_foreign t in_window_foreign by (rule ValidateToken_ignores_issuer)
  with t sample_codec_foreign in_window_foreign show ?thesis
    by (simp add: foreign_claims_def)
qed

text \<open>
  Claim C6 (lifetime window), as amended. An access token issued at \<open>t0\<close> with a positive
  lifetime validates exactly from the issue time truncated to the second up to, and not
  including, the expiry, which is \<open>t0\<close> plus the lifetime truncated to the second. So it
  validates at every \<open>now\<close> with \<open>t0 \<le> now\<close> before the expiry, and validation fails with
  \<^verbatim>\<open>ErrTokenExpired\<close> at every \<open>now\<close> from \<open>t0\<close> plus the lifetime on: at that instant
  itself and one unit later.
\<close>

theorem access_token_window:
  assumes "codec_ok L ''HS256'' (marshal_Claims (accessClaims j userID email t0))"
    and "GenerateAccessToken L j userID email t0 = Inr tok"
    and "0 < accessTokenDuration j"
  shows "(ValidateToken L j now tok = Inr (accessClaims j userID email t0)
            \<longleftrightarrow> date_Time (NewNumericDate t0) \<le> now
                \<and> now < date_Time (NewNumericDate (t0 + accessTokenDuration j)))
     \<and> (t0 \<le> now \<and> now < date_Time (NewNumericDate (t0 + accessTokenDuration j))
          \<longrightarrow> ValidateToken L j now tok = Inr (accessClaims j userID email t0))
     \<and> (t0 + accessTokenDuration j \<le> now
          \<longrightarrow> ValidateToken L j now tok = Inl (Passed (ErrTokenInvalidClaims [ErrTokenExpired])))"
proof -
  have le: "date_Time (NewNumericDate t0) \<le> t0"
    by (rule trunc_le)
  have le': "date_Time (NewNumericDate (t0 + accessTokenDuration j)) \<le> t0 + accessTokenDuration j"
    by (rule trunc_le)
  show ?thesis
    unfolding ValidateToken_generated_access [OF assms(1,2)] Validate_accessClaims
    using le le' assms(3) by auto
qed

lemma sample_duration: "accessTokenDuration sample_manager = 900000000000"
  by (simp add: sample_manager_def NewJWTManager_def)

lemma sample_GenerateAccessToken:
  "\<exists>tok. GenerateAccessToken sample_lib sample_manager ''u1'' ''a@b.com'' sample_t0 = Inr tok"
  by (simp add: GenerateAccessToken_def SignedString_HS256)

theorem access_token_window_witness:
  "codec_ok sample_lib ''HS256''
     (marshal_Claims (accessClaims sample_manager ''u1'' ''a@b.com'' sample_t0))
   \<and> 0 < accessTokenDuration sample_manager
   \<and> (\<exists>tok. GenerateAccessToken sample_lib sample_manager ''u1'' ''a@b.com'' sample_t0 = Inr tok
        \<and> ValidateToken sample_lib sample_manager (sample_t0 + 899999999999) tok
            = Inr (accessClaims sample_manager ''u1'' ''a@b.com'' sample_t0)
        \<and> ValidateToken sample_lib sample_manager (sample_t0 + 900000000001) tok
            = Inl (Passed (ErrTokenInvalidClaims [ErrTokenExpired])))"
proof -
  obtain tok where t:
    "GenerateAccessToken sample_lib sample_manager ''u1'' ''a@b.com'' sample_t0 = Inr tok"
    using sample_GenerateAccessToken by blast
  have d: "0 < accessTokenDuration sample_manager"
    by (simp add: sample_duration)
  have a: "sample_t0 \<le> sample_t0 + 899999999999
      \<and> sample_t0 + 899999999999
          < date_Time (NewNumericDate (sample_t0 + accessTokenDuration sample_manager))"
    by (simp add: sample_duration sample_t0_def date_Time_def NewNumericDate_def)
  have b: "sample_t0 + accessTokenDuration sample_manager \<le> sample_t0 + 900000000001"
    by (simp add: sample_duration)
  show ?thesis
    using access_token_window [OF sample_codec_access t d, of "sample_t0 + 899999999999"]
      access_token_window [OF sample_codec_access t d, of "sample_t0 + 900000000001"]
      sample_codec_access t d a b
    by blast
qed

text \<open>
  Against C6 as stated: with the default lifetime of 15 minutes, a token issued at a whole
  second is refused as expired at the issue time plus the lifetime, a time the claim
  includes in the window.
\<close>

theorem access_token_rejected_at_expiry:
  "0 < accessTokenDuration sample_manager
   \<and> sample_t0 \<le> sample_t0 + accessTokenDuration sample_manager
   \<and> (\<exists>tok. GenerateAccessToken sample_lib sample_manager ''u1'' ''a@b.com'' sample_t0 = Inr tok
        \<and> ValidateToken sample_lib sample_manager
             (sample_t0 + accessTokenDuration sample_manager) tok
            = Inl (Passed (ErrTokenInvalidClaims [ErrTokenExpired])))"
proof -
  obtain tok where t:
    "GenerateAccessToken sample_lib sample_manager ''u1'' ''a@b.com'' sample_t0 = Inr tok"
    using sample_GenerateAccessToken by blast
  have "ValidateToken sample_lib sample_manager
      (sample_t0 + accessTokenDuration sample_manager) tok
        = Inl (Passed (ErrTokenInvalidClaims [ErrTokenExpired]))"
    unfolding ValidateToken_generated_access [OF sample_codec_access t] Validate_accessClaims
    by (simp add: sample_duration sample_t0_def date_Time_def NewNumericDate_def)
  with t show ?thesis
    by (auto simp: sample_duration)
qed


lemma copy_into_NUL:
  "length key < n \<Longrightarrow> copy_into n (key @ [NUL]) = copy_into n key"
proof -
  assume a: "length key < n"
  have "[NUL] @ replicate n NUL = replicate n NUL @ [NUL]"
    by (simp add: replicate_append_same)
  then have "(key @ [NUL]) @ replicate n NUL = (key @ replicate n NUL) @ [NUL]"
    by simp
  then show ?thesis
    using a unfolding copy_into_def by (simp del: append_assoc append.simps)
qed

lemma hmac_Sum_NUL:
  assumes "length key < BlockSize h"
  shows "hmac_Sum H h (key @ [NUL]) msg = hmac_Sum H h key msg"
proof -
  have "hmac_block H h (key @ [NUL]) = hmac_block H h key"
    using assms by (simp add: hmac_block_def copy_into_NUL)
  then show ?thesis
    by (simp add: hmac_Sum_def)
qed

lemma hd_hmac_Sum_id:
  assumes "length (a # key) \<le> BlockSize h"
  shows "hd (hmac_Sum (\<lambda>h m. m) h (a # key) msg) = char_of ((of_char a :: nat) XOR 0x5c)"
proof -
  have "0 < BlockSize h"
    using assms by auto
  then obtain n where n: "BlockSize h = Suc n"
    by (cases "BlockSize h") auto
  have "hmac_block (\<lambda>h m. m) h (a # key) = a # take n (key @ replicate (Suc n) NUL)"
    using assms by (simp add: hmac_block_def copy_into_def n)
  then show ?thesis
    by (simp add: hmac_Sum_def xor_bytes_def)
qed

lemma sample_tags_differ:
  "hmac_Sum (\<lambda>h m. m) SHA256 ''j'' msg \<noteq> hmac_Sum (\<lambda>h m. m) SHA256 ''k'' msg"
proof -
  have j: "hd (hmac_Sum (\<lambda>h m. m) SHA256 ''j'' msg) = char_of ((of_char (CHR ''j'') :: nat) XOR 0x5c)"
    by (rule hd_hmac_Sum_id) (simp add: BlockSize_def)
  have k: "hd (hmac_Sum (\<lambda>h m. m) SHA256 ''k'' msg) = char_of ((of_char (CHR ''k'') :: nat) XOR 0x5c)"
    by (rule hd_hmac_Sum_id) (simp add: BlockSize_def)
  have "char_of ((of_char (CHR ''j'') :: nat) XOR 0x5c) \<noteq> char_of ((of_char (CHR ''k'') :: nat) XOR 0x5c)"
    by code_simp
  with j k show ?thesis by metis
qed

lemma sha_sample_lib: "sha sample_lib = (\<lambda>h m. m)"
  by (simp add: sample_lib_def table_lib_def)

lemma sample_secret: "secret sample_manager = ''k''"
  by (simp add: sample_manager_def NewJWTManager_def)

lemma validators_same_tag:
  assumes "Decode L tok = Some raw"
    and "verified L j2 raw = verified L j1 raw"
  shows "ValidateToken L j2 now tok = ValidateToken L j1 now tok
     \<and> ValidateRefreshToken L j2 now tok = ValidateRefreshToken L j1 now tok"
  unfolding ValidateToken_def ValidateRefreshToken_def ParseWithClaims_keyFunc assms(1)
    option.case assms(2)
  by (rule conjI refl)+

lemma hmac_Sum_same_block:
  "hmac_block H h k1 = hmac_block H h k2 \<Longrightarrow> hmac_Sum H h k1 msg = hmac_Sum H h k2 msg"
  by (simp add: hmac_Sum_def)

lemma hmac_block_zero_byte:
  "length k < 64 \<Longrightarrow> hmac_block H SHA256 (k @ [NUL]) = hmac_block H SHA256 k"
  by (simp add: hmac_block_def BlockSize_def copy_into_NUL)

lemma hmac_block_hashed_key:
  "64 < length k \<Longrightarrow> length (H SHA256 k) \<le> 64
     \<Longrightarrow> hmac_block H SHA256 (H SHA256 k) = hmac_block H SHA256 k"
  by (simp add: hmac_block_def BlockSize_def)

lemma long_accessClaims:
  "accessClaims long_manager u e t = accessClaims sample_manager u e t"
  by (simp add: accessClaims_def long_manager_def sample_manager_def NewJWTManager_def)

lemma short_codec_access:
  "codec_ok short_lib ''HS256''
     (marshal_Claims (accessClaims long_manager ''u1'' ''a@b.com'' sample_t0))"
  using sample_codec_access unfolding long_accessClaims codec_ok_def short_lib_def by simp

lemma long_secret: "secret long_manager = replicate 65 (CHR ''a'')"
  by (simp add: long_manager_def NewJWTManager_def)

lemma sha_short_lib: "sha short_lib = (\<lambda>h m. take 32 m)"
  by (simp add: short_lib_def)

lemma in_window_sample_access:
  "in_window (sample_t0 + 5) (accessClaims sample_manager ''u1'' ''a@b.com'' sample_t0)"
  unfolding Validate_Nil_iff [symmetric] Validate_accessClaims
  by (simp add: sample_duration sample_t0_def date_Time_def NewNumericDate_def)

text \<open>
  Claim C7 (another secret), as amended. Take a token issued by a manager with secret
  \<open>S1\<close>, access or refresh, and a manager with secret \<open>S2\<close>. If the HMAC-SHA256 tags of the
  token's signed text under the two secrets differ, both validators of the second manager
  reject the token with a signature error. If the tags are equal, both validators of the
  second manager return what those of the first return, and \<^verbatim>\<open>ValidateToken\<close> accepts the
  token, with its claims, whenever the clock lies inside the token's window. The tags are
  equal whenever \<^verbatim>\<open>hmac.New\<close> lays the two secrets out as the same 64-byte key block, and
  distinct secrets do have the same block: a secret shorter than 64 bytes and the same
  secret followed by a zero byte; a secret longer than 64 bytes and its hash, the hash
  being at most 64 bytes long (a SHA-256 digest has 32).
\<close>

theorem other_secret_rejected:
  assumes "(GenerateAccessToken L j1 userID email t0 = Inr tok
              \<and> ms = marshal_Claims (accessClaims j1 userID email t0))
           \<or> (GenerateRefreshToken L j1 userID t0 = Inr tok
              \<and> ms = marshal_RegisteredClaims (refreshClaims j1 userID t0))"
    and "codec_ok L ''HS256'' ms"
  shows "(hmac_Sum (sha L) SHA256 (secret j1) (SigningString L ''HS256'' ms)
            \<noteq> hmac_Sum (sha L) SHA256 (secret j2) (SigningString L ''HS256'' ms)
          \<longrightarrow> ValidateToken L j2 now tok = Inl (Passed ErrTokenSignatureInvalid)
              \<and> ValidateRefreshToken L j2 now tok
                  = Inl (Errorf_w ''failed to parse refresh token: '' ErrTokenSignatureInvalid))
     \<and> (hmac_Sum (sha L) SHA256 (secret j1) (SigningString L ''HS256'' ms)
            = hmac_Sum (sha L) SHA256 (secret j2) (SigningString L ''HS256'' ms)
          \<longrightarrow> ValidateToken L j2 now tok = ValidateToken L j1 now tok
              \<and> ValidateRefreshToken L j2 now tok = ValidateRefreshToken L j1 now tok
              \<and> (in_window now (unmarshal_Claims ms)
                   \<longrightarrow> ValidateToken L j2 now tok = Inr (unmarshal_Claims ms)))
     \<and> (hmac_block (sha L) SHA256 (secret j2) = hmac_block (sha L) SHA256 (secret j1)
          \<longrightarrow> hmac_Sum (sha L) SHA256 (secret j1) (SigningString L ''HS256'' ms)
                = hmac_Sum (sha L) SHA256 (secret j2) (SigningString L ''HS256'' ms))
     \<and> (length (secret j1) < 64 \<and> secret j2 = secret j1 @ [NUL]
          \<longrightarrow> secret j2 \<noteq> secret j1
              \<and> hmac_block (sha L) SHA256 (secret j2) = hmac_block (sha L) SHA256 (secret j1))
     \<and> (64 < length (secret j1) \<and> secret j2 = sha L SHA256 (secret j1)
            \<and> length (sha L SHA256 (secret j1)) \<le> 64
          \<longrightarrow> secret j2 \<noteq> secret j1
              \<and> hmac_block (sha L) SHA256 (secret j2) = hmac_block (sha L) SHA256 (secret j1))"
proof -
  let ?t = "SigningString L ''HS256'' ms"
  from assms(1) have s: "SignedString L (SigningMethodHMAC SHA256) ms (secret j1) = Inr tok"
    by (auto simp: GenerateAccessToken_def GenerateRefreshToken_def)
  note d = Decode_signed [OF assms(2) s]
  have same: "ValidateToken L j2 now tok = ValidateToken L j1 now tok
      \<and> ValidateRefreshToken L j2 now tok = ValidateRefreshToken L j1 now tok
      \<and> (in_window now (unmarshal_Claims ms)
            \<longrightarrow> ValidateToken L j2 now tok = Inr (unmarshal_Claims ms))"
    if eq: "hmac_Sum (sha L) SHA256 (secret j1) ?t = hmac_Sum (sha L) SHA256 (secret j2) ?t"
  proof -
    have "verified L j2 \<lparr>hdr_alg = Some ''HS256'', payload = ms, signing_input = ?t,
          signature = hmac_Sum (sha L) SHA256 (secret j1) ?t\<rparr>
        = verified L j1 \<lparr>hdr_alg = Some ''HS256'', payload = ms, signing_input = ?t,
          signature = hmac_Sum (sha L) SHA256 (secret j1) ?t\<rparr>"
      unfolding verified_HS256 using eq by simp
    with d have "ValidateToken L j2 now tok = ValidateToken L j1 now tok
      \<and> ValidateRefreshToken L j2 now tok = ValidateRefreshToken L j1 now tok"
      by (rule validators_same_tag)
    moreover have "ValidateToken L j2 now tok = Inr (unmarshal_Claims ms)"
      if "in_window now (unmarshal_Claims ms)"
      using ValidateToken_signed [OF assms(2) s, of j2 now] eq that
      by (simp add: Validate_Nil_iff)
    ultimately show ?thesis
      by blast
  qed
  have differ: "ValidateToken L j2 now tok = Inl (Passed ErrTokenSignatureInvalid)
      \<and> ValidateRefreshToken L j2 now tok
          = Inl (Errorf_w ''failed to parse refresh token: '' ErrTokenSignatureInvalid)"
    if ne: "hmac_Sum (sha L) SHA256 (secret j1) ?t \<noteq> hmac_Sum (sha L) SHA256 (secret j2) ?t"
    using ValidateToken_signed [OF assms(2) s, of j2 now]
      ValidateRefreshToken_signed_other_key [OF assms(2) s ne, of now] ne
    by simp
  have block: "hmac_Sum (sha L) SHA256 (secret j1) ?t = hmac_Sum (sha L) SHA256 (secret j2) ?t"
    if "hmac_block (sha L) SHA256 (secret j2) = hmac_block (sha L) SHA256 (secret j1)"
    using hmac_Sum_same_block [OF that, of ?t] by simp
  have pad: "secret j2 \<noteq> secret j1
      \<and> hmac_block (sha L) SHA256 (secret j2) = hmac_block (sha L) SHA256 (secret j1)"
    if "length (secret j1) < 64 \<and> secret j2 = secret j1 @ [NUL]"
    using that hmac_block_zero_byte [of "secret j1" "sha L"] by simp
  have long: "secret j2 \<noteq> secret j1
      \<and> hmac_block (sha L) SHA256 (secret j2) = hmac_block (sha L) SHA256 (secret j1)"
    if "64 < length (secret j1) \<and> secret j2 = sha L SHA256 (secret j1)
            \<and> length (sha L SHA256 (secret j1)) \<le> 64"
    using that hmac_block_hashed_key [of "secret j1" "sha L"] by auto
  show ?thesis
    using same differ block pad long by blast
qed

theorem other_secret_rejected_witness:
  "codec_ok sample_lib ''HS256''
     (marshal_Claims (accessClaims sample_manager ''u1'' ''a@b.com'' sample_t0))
   \<and> hmac_Sum (sha sample_lib) SHA256 (secret sample_manager)
        (SigningString sample_lib ''HS256''
           (marshal_Claims (accessClaims sample_manager ''u1'' ''a@b.com'' sample_t0)))
       \<noteq> hmac_Sum (sha sample_lib) SHA256 (secret (sample_manager\<lparr>secret := ''j''\<rparr>))
            (SigningString sample_lib ''HS256''
               (marshal_Claims (accessClaims sample_manager ''u1'' ''a@b.com'' sample_t0)))
   \<and> length (secret sample_manager) < 64
   \<and> in_window (sample_t0 + 5) (accessClaims sample_manager ''u1'' ''a@b.com'' sample_t0)
   \<and> (\<exists>tok. GenerateAccessToken sample_lib sample_manager ''u1'' ''a@b.com'' sample_t0 = Inr tok
        \<and> ValidateToken sample_lib (sample_manager\<lparr>secret := ''j''\<rparr>) (sample_t0 + 5) tok
            = Inl (Passed ErrTokenSignatureInvalid)
        \<and> ValidateRefreshToken sample_lib (sample_manager\<lparr>secret := ''j''\<rparr>) (sample_t0 + 5) tok
            = Inl (Errorf_w ''failed to parse refresh token: '' ErrTokenSignatureInvalid)
        \<and> ValidateToken sample_lib (sample_manager\<lparr>secret := secret sample_manager @ [NUL]\<rparr>)
              (sample_t0 + 5) tok
            = Inr (accessClaims sample_manager ''u1'' ''a@b.com'' sample_t0)
        \<and> ValidateRefreshToken sample_lib
              (sample_manager\<lparr>secret := secret sample_manager @ [NUL]\<rparr>) (sample_t0 + 5) tok
            = ValidateRefreshToken sample_lib sample_manager (sample_t0 + 5) tok)
   \<and> codec_ok short_lib ''HS256''
       (marshal_Claims (accessClaims long_manager ''u1'' ''a@b.com'' sample_t0))
   \<and> 64 < length (secret long_manager)
   \<and> length (sha short_lib SHA256 (secret long_manager)) \<le> 64
   \<and> in_window (sample_t0 + 5) (accessClaims long_manager ''u1'' ''a@b.com'' sample_t0)
   \<and> (\<exists>tok. GenerateAccessToken short_lib long_manager ''u1'' ''a@b.com'' sample_t0 = Inr tok
        \<and> ValidateToken short_lib
              (long_manager\<lparr>secret := sha short_lib SHA256 (secret long_manager)\<rparr>)
              (sample_t0 + 5) tok
            = Inr (accessClaims long_manager ''u1'' ''a@b.com'' sample_t0))"
proof -
  let ?ms = "marshal_Claims (accessClaims sample_manager ''u1'' ''a@b.com'' sample_t0)"
  let ?ml = "marshal_Claims (accessClaims long_manager ''u1'' ''a@b.com'' sample_t0)"
  let ?j = "sample_manager\<lparr>secret := ''j''\<rparr>"
  let ?z = "sample_manager\<lparr>secret := secret sample_manager @ [NUL]\<rparr>"
  let ?h = "long_manager\<lparr>secret := sha short_lib SHA256 (secret long_manager)\<rparr>"
  obtain tok where t:
    "GenerateAccessToken sample_lib sample_manager ''u1'' ''a@b.com'' sample_t0 = Inr tok"
    using sample_GenerateAccessToken by blast
  obtain tol where tl:
    "GenerateAccessToken short_lib long_manager ''u1'' ''a@b.com'' sample_t0 = Inr tol"
    by (simp add: GenerateAccessToken_def SignedString_HS256)
  have ne: "hmac_Sum (sha sample_lib) SHA256 (secret sample_manager)
        (SigningString sample_lib ''HS256'' ?ms)
       \<noteq> hmac_Sum (sha sample_lib) SHA256 (secret ?j) (SigningString sample_lib ''HS256'' ?ms)"
    unfolding sha_sample_lib sample_secret using sample_tags_differ by (simp add: eq_commute)
  have g: "(GenerateAccessToken sample_lib sample_manager ''u1'' ''a@b.com'' sample_t0 = Inr tok
        \<and> ?ms = marshal_Claims (accessClaims sample_manager ''u1'' ''a@b.com'' sample_t0))
      \<or> (GenerateRefreshToken sample_lib sample_manager ''u1'' sample_t0 = Inr tok
        \<and> ?ms = marshal_RegisteredClaims (refreshClaims sample_manager ''u1'' sample_t0))"
    using t by simp
  have gl: "(GenerateAccessToken short_lib long_manager ''u1'' ''a@b.com'' sample_t0 = Inr tol
        \<and> ?ml = marshal_Claims (accessClaims long_manager ''u1'' ''a@b.com'' sample_t0))
      \<or> (GenerateRefreshToken short_lib long_manager ''u1'' sample_t0 = Inr tol
        \<and> ?ml = marshal_RegisteredClaims (refreshClaims long_manager ''u1'' sample_t0))"
    using tl by simp
  have l: "length (secret sample_manager) < 64"
    by (simp add: sample_secret)
  have ll: "64 < length (secret long_manager)"
    by (simp add: long_secret)
  have ls: "length (sha short_lib SHA256 (secret long_manager)) \<le> 64"
    by (simp add: long_secret sha_short_lib)
  note w = in_window_sample_access
  have wl: "in_window (sample_t0 + 5) (accessClaims long_manager ''u1'' ''a@b.com'' sample_t0)"
    unfolding long_accessClaims by (rule w)
  have zs: "secret ?z = secret sample_manager @ [NUL]"
    by simp
  have hs: "secret ?h = sha short_lib SHA256 (secret long_manager)"
    by simp
  note J = other_secret_rejected [OF g sample_codec_access, where ?j2.0 = ?j
      and now = "sample_t0 + 5"]
  note Z = other_secret_rejected [OF g sample_codec_access, where ?j2.0 = ?z
      and now = "sample_t0 + 5", unfolded unmarshal_marshal_Claims]
  note H = other_secret_rejected [OF gl short_codec_access, where ?j2.0 = ?h
      and now = "sample_t0 + 5", unfolded unmarshal_marshal_Claims]
  have 1: "ValidateToken sample_lib ?j (sample_t0 + 5) tok = Inl (Passed ErrTokenSignatureInvalid)
        \<and> ValidateRefreshToken sample_lib ?j (sample_t0 + 5) tok
            = Inl (Errorf_w ''failed to parse refresh token: '' ErrTokenSignatureInvalid)"
    using J ne by blast
  have 2: "ValidateToken sample_lib ?z (sample_t0 + 5) tok
            = Inr (accessClaims sample_manager ''u1'' ''a@b.com'' sample_t0)
        \<and> ValidateRefreshToken sample_lib ?z (sample_t0 + 5) tok
            = ValidateRefreshToken sample_lib sample_manager (sample_t0 + 5) tok"
    using Z l zs w by blast
  have 3: "ValidateToken short_lib ?h (sample_t0 + 5) tol
            = Inr (accessClaims long_manager ''u1'' ''a@b.com'' sample_t0)"
    using H ll ls hs wl by blast
  show ?thesis
    using sample_codec_access ne l w t 1 2 short_codec_access ll ls wl tl 3 by blast
qed

lemma sample_zero_padded_accepted:
  "secret sample_manager \<noteq> secret (sample_manager\<lparr>secret := ''k'' @ [NUL]\<rparr>)
   \<and> (\<exists>tok. GenerateAccessToken sample_lib sample_manager ''u1'' ''a@b.com'' sample_t0 = Inr tok
        \<and> ValidateToken sample_lib (sample_manager\<lparr>secret := ''k'' @ [NUL]\<rparr>) (sample_t0 + 5) tok
            = Inr (accessClaims sample_manager ''u1'' ''a@b.com'' sample_t0))"
proof -
  obtain tok where t:
    "GenerateAccessToken sample_lib sample_manager ''u1'' ''a@b.com'' sample_t0 = Inr tok"
    using sample_GenerateAccessToken by blast
  have k: "secret sample_manager = ''k''"
    by (simp add: sample_manager_def NewJWTManager_def)
  have eq: "hmac_Sum H SHA256 (''k'' @ [NUL]) msg = hmac_Sum H SHA256 ''k'' msg" for H msg
    by (rule hmac_Sum_NUL) (simp add: BlockSize_def)
  have w: "Validate (sample_t0 + 5) (accessClaims sample_manager ''u1'' ''a@b.com'' sample_t0) = []"
    unfolding Validate_accessClaims
    by (simp add: sample_duration sample_t0_def date_Time_def NewNumericDate_def)
  have "ValidateToken sample_lib (sample_manager\<lparr>secret := ''k'' @ [NUL]\<rparr>) (sample_t0 + 5) tok
      = Inr (accessClaims sample_manager ''u1'' ''a@b.com'' sample_t0)"
    using ValidateToken_signed [OF sample_codec_access t [unfolded GenerateAccessToken_def],
        of "sample_manager\<lparr>secret := ''k'' @ [NUL]\<rparr>" "sample_t0 + 5"] w
    by (simp add: k eq unmarshal_marshal_Claims del: append.simps)
  with t k show ?thesis by auto
qed

lemma verified_zero_padded:
  assumes "length (secret j) < 64"
  shows "verified L (j\<lparr>secret := secret j @ [NUL]\<rparr>) raw = verified L j raw"
proof -
  have "hmac_Sum H h (secret j @ [NUL]) msg = hmac_Sum H h (secret j) msg" for H h msg
    by (rule hmac_Sum_NUL) (use assms in \<open>simp add: BlockSize_def split: hash_alg.splits\<close>)
  then show ?thesis
    by (simp add: verified_def split: option.splits SigningMethod.splits)
qed

lemma validators_zero_padded:
  assumes "length (secret j) < 64"
  shows "ValidateToken L (j\<lparr>secret := secret j @ [NUL]\<rparr>) now tok = ValidateToken L j now tok"
    and "ValidateRefreshToken L (j\<lparr>secret := secret j @ [NUL]\<rparr>) now tok
           = ValidateRefreshToken L j now tok"
  unfolding ValidateToken_def ValidateRefreshToken_def ParseWithClaims_keyFunc
    verified_zero_padded [OF assms]
  by (rule refl)+

text \<open>
  Against C7 as stated: the secrets \<^verbatim>\<open>k\<close> and \<^verbatim>\<open>k\<close> followed by a zero byte are different,
  yet a manager configured with either validates exactly the tokens the other validates,
  for every library instance; in the sample library, an access token issued under the
  first is accepted under the second.
\<close>

theorem zero_padded_secret_accepted:
  "secret sample_manager \<noteq> secret (sample_manager\<lparr>secret := ''k'' @ [NUL]\<rparr>)
   \<and> (\<forall>L now tok.
         ValidateToken L (sample_manager\<lparr>secret := ''k'' @ [NUL]\<rparr>) now tok
           = ValidateToken L sample_manager now tok
         \<and> ValidateRefreshToken L (sample_manager\<lparr>secret := ''k'' @ [NUL]\<rparr>) now tok
           = ValidateRefreshToken L sample_manager now tok)
   \<and> (\<exists>tok. GenerateAccessToken sample_lib sample_manager ''u1'' ''a@b.com'' sample_t0 = Inr tok
        \<and> ValidateToken sample_lib (sample_manager\<lparr>secret := ''k'' @ [NUL]\<rparr>) (sample_t0 + 5) tok
            = Inr (accessClaims sample_manager ''u1'' ''a@b.com'' sample_t0))"
proof -
  have l: "length (secret sample_manager) < 64"
    by (simp add: sample_secret)
  have "\<forall>L now tok.
         ValidateToken L (sample_manager\<lparr>secret := ''k'' @ [NUL]\<rparr>) now tok
           = ValidateToken L sample_manager now tok
         \<and> ValidateRefreshToken L (sample_manager\<lparr>secret := ''k'' @ [NUL]\<rparr>) now tok
           = ValidateRefreshToken L sample_manager now tok"
    using validators_zero_padded [OF l] by (simp add: sample_secret del: append.simps)
  then show ?thesis
    using sample_zero_padded_accepted by blast
qed

section \<open>The authorization gate\<close>

lemma plain_not_multibyte:
  assumes "plain_byte a"
  shows "\<not> isSpace1 a" "\<not> isSpace2 a b" "\<not> isSpace3 a b c" "\<not> isSpace2 b a" "\<not> isSpace3 c b a"
  using assms by (auto simp: plain_byte_def isSpace2_def isSpace3_def)

lemma TrimLeftSpace_plain: "plain_byte a \<Longrightarrow> TrimLeftSpace (a # s) = a # s"
proof (cases s)
  case Nil
  assume "plain_byte a"
  with Nil show ?thesis by (simp add: plain_not_multibyte)
next
  case (Cons b s')
  assume p: "plain_byte a"
  show ?thesis
  proof (cases s')
    case Nil
    with Cons p show ?thesis by (simp add: plain_not_multibyte)
  next
    case (Cons c s'')
    with \<open>s = b # s'\<close> p show ?thesis by (simp add: plain_not_multibyte)
  qed
qed

lemma TrimLeftSpace_rev_plain: "plain_byte a \<Longrightarrow> TrimLeftSpace_rev (a # s) = a # s"
proof (cases s)
  case Nil
  assume "plain_byte a"
  with Nil show ?thesis by (simp add: plain_not_multibyte)
next
  case (Cons b s')
  assume p: "plain_byte a"
  show ?thesis
  proof (cases s')
    case Nil
    with Cons p show ?thesis by (simp add: plain_not_multibyte)
  next
    case (Cons c s'')
    with \<open>s = b # s'\<close> p show ?thesis by (simp add: plain_not_multibyte)
  qed
qed

lemma TrimSpace_plain:
  assumes "s \<noteq> []" "plain_byte (hd s)" "plain_byte (last s)"
  shows "TrimSpace s = s"
proof -
  from assms(1) obtain a t where s: "s = a # t" by (cases s) auto
  have l: "TrimLeftSpace s = s"
    using assms(2) unfolding s by (simp add: TrimLeftSpace_plain)
  have r: "rev s = last s # rev (butlast s)"
    using assms(1) by (metis append_butlast_last_id rev.simps(2) rev_append rev_rev_ident
        append.simps rev.simps(1))
  have "TrimLeftSpace_rev (rev s) = rev s"
    unfolding r using assms(3) by (rule TrimLeftSpace_rev_plain)
  then show ?thesis
    by (simp add: TrimSpace_def l)
qed

lemma TrimLeftSpace_space: "TrimLeftSpace (CHR '' '' # s) = TrimLeftSpace s"
proof (cases s)
  case Nil
  then show ?thesis by (simp add: isSpace1_def)
next
  case (Cons b s')
  then show ?thesis by (cases s') (simp_all add: isSpace1_def)
qed

lemma TrimSpace_space: "TrimSpace (CHR '' '' # s) = TrimSpace s"
  by (simp add: TrimSpace_def TrimLeftSpace_space)

lemma AuthMiddleware_eq:
  "AuthMiddleware L j now r =
     (case Authorization r of
        None \<Rightarrow> Responded (unauthorized ''authorization header missing'')
      | Some h \<Rightarrow>
          if h = [] then Responded (unauthorized ''authorization header missing'')
          else if bearerToken h = [] then Responded (unauthorized ''invalid authorization header'')
          else (case ValidateToken L j now (bearerToken h) of
                  Inl err \<Rightarrow> Responded (unauthorized ''invalid or expired token'')
                | Inr claims \<Rightarrow> Next \<lparr>userIDKey = UserID claims, emailKey = Email claims\<rparr>))"
  by (simp add: AuthMiddleware_def Header_Get_Authorization_def Let_def split: option.splits)

lemma bearerToken_no_prefix:
  "\<not> (\<exists>rest. header = ''Bearer '' @ rest) \<Longrightarrow> bearerToken header = []"
  using bearerToken_eq [of header "bearerToken header"] by blast

lemma gate_pick1:
  "\<lbrakk>A; \<not> B; \<not> C; V = Responded m\<rbrakk>
   \<Longrightarrow> (V = Responded resp) = ((A \<and> resp = m) \<or> (B \<and> resp = mb) \<or> (C \<and> resp = mc))"
  by auto

lemma gate_pick2:
  "\<lbrakk>\<not> A; B; \<not> C; V = Responded m\<rbrakk>
   \<Longrightarrow> (V = Responded resp) = ((A \<and> resp = ma) \<or> (B \<and> resp = m) \<or> (C \<and> resp = mc))"
  by auto

lemma gate_pick3:
  "\<lbrakk>\<not> A; \<not> B; C; V = Responded m\<rbrakk>
   \<Longrightarrow> (V = Responded resp) = ((A \<and> resp = ma) \<or> (B \<and> resp = mb) \<or> (C \<and> resp = m))"
  by auto

lemma gate_pick0:
  "\<lbrakk>\<not> A; \<not> B; \<not> C; V = Next c\<rbrakk>
   \<Longrightarrow> (V = Responded resp) = ((A \<and> resp = ma) \<or> (B \<and> resp = mb) \<or> (C \<and> resp = mc))"
  by auto

lemma AuthMiddleware_Responded_iff:
  "AuthMiddleware L j now r = Responded resp \<longleftrightarrow>
     ((Authorization r = None \<or> Authorization r = Some [])
        \<and> resp = unauthorized ''authorization header missing'')
     \<or> ((\<exists>h. Authorization r = Some h \<and> h \<noteq> []
            \<and> (\<not> (\<exists>rest. h = ''Bearer '' @ rest)
                \<or> (\<exists>rest. h = ''Bearer '' @ rest \<and> TrimSpace rest = [])))
        \<and> resp = unauthorized ''invalid authorization header'')
     \<or> ((\<exists>rest err. Authorization r = Some (''Bearer '' @ rest) \<and> TrimSpace rest \<noteq> []
            \<and> ValidateToken L j now (TrimSpace rest) = Inl err)
        \<and> resp = unauthorized ''invalid or expired token'')"
  (is "?V = Responded resp \<longleftrightarrow> (?A \<and> ?ra) \<or> (?B \<and> ?rb) \<or> (?C \<and> ?rc)")
proof (cases "Authorization r")
  case None
  have "?A" "\<not> ?B" "\<not> ?C"
    using None by simp_all
  moreover have "?V = Responded (unauthorized ''authorization header missing'')"
    using None by (simp add: AuthMiddleware_eq)
  ultimately show ?thesis by (rule gate_pick1)
next
  case (Some h)
  have B: "?B \<longleftrightarrow> h \<noteq> [] \<and> (\<not> (\<exists>rest. h = ''Bearer '' @ rest)
      \<or> (\<exists>rest. h = ''Bearer '' @ rest \<and> TrimSpace rest = []))"
    unfolding Some option.inject by (rule ex_simps simp_thms)+
  have C: "?C \<longleftrightarrow> (\<exists>rest err. h = ''Bearer '' @ rest \<and> TrimSpace rest \<noteq> []
      \<and> ValidateToken L j now (TrimSpace rest) = Inl err)"
    unfolding Some option.inject by (rule refl)
  have A: "?A \<longleftrightarrow> h = []"
    unfolding Some option.inject by simp
  show ?thesis
  proof (cases "h = []")
    case True
    have "?A" unfolding A by (rule True)
    moreover have "\<not> ?B" unfolding B using True by blast
    moreover have "\<not> ?C" unfolding C True by simp
    moreover have "?V = Responded (unauthorized ''authorization header missing'')"
      using Some True by (simp add: AuthMiddleware_eq)
    ultimately show ?thesis by (rule gate_pick1)
  next
    case ne: False
    have nA: "\<not> ?A" unfolding A by (rule ne)
    show ?thesis
    proof (cases "\<exists>rest. h = ''Bearer '' @ rest")
      case False
      then have b: "bearerToken h = []" by (rule bearerToken_no_prefix)
      note nA
      moreover have "?B" unfolding B using ne False by blast
      moreover have "\<not> ?C" unfolding C using False by blast
      moreover have "?V = Responded (unauthorized ''invalid authorization header'')"
        using Some ne b by (simp add: AuthMiddleware_eq)
      ultimately show ?thesis by (rule gate_pick2)
    next
      case True
      then obtain rest where h: "h = ''Bearer '' @ rest" by blast
      have b: "bearerToken h = TrimSpace rest"
        unfolding h by (rule bearerToken_Bearer)
      have u: "rest' = rest" if "h = ''Bearer '' @ rest'" for rest'
        using that unfolding h by simp
      show ?thesis
      proof (cases "TrimSpace rest = []")
        case blank: True
        note nA
        moreover have "?B" unfolding B using ne True h blank by blast
        moreover have "\<not> ?C" unfolding C using u blank by blast
        moreover have "?V = Responded (unauthorized ''invalid authorization header'')"
          using Some ne b blank by (simp add: AuthMiddleware_eq)
        ultimately show ?thesis by (rule gate_pick2)
      next
        case tok: False
        have nB: "\<not> ?B" unfolding B using True u tok by blast
        show ?thesis
        proof (cases "ValidateToken L j now (TrimSpace rest)")
          case (Inl err)
          note nA nB
          moreover have "?C" unfolding C using h tok Inl by blast
          moreover have "?V = Responded (unauthorized ''invalid or expired token'')"
            using Some ne b tok Inl by (simp add: AuthMiddleware_eq)
          ultimately show ?thesis by (rule gate_pick3)
        next
          case (Inr claims)
          note nA nB
          moreover have "\<not> ?C" unfolding C using u Inr by (metis sum.distinct(1))
          moreover have "?V = Next \<lparr>userIDKey = UserID claims, emailKey = Email claims\<rparr>"
            using Some ne b tok Inr by (simp add: AuthMiddleware_eq)
          ultimately show ?thesis by (rule gate_pick0)
        qed
      qed
    qed
  qed
qed

text \<open>
  Claim C3 (the gate's rejections), as amended. The gate rejects in exactly three ways,
  each with status 401, content type \<^verbatim>\<open>application/json\<close> and a body whose \<^verbatim>\<open>error\<close>
  member is \<^verbatim>\<open>unauthorized\<close>; the \<^verbatim>\<open>message\<close> member names the stage that failed. A
  request whose header is missing or empty is answered \<^verbatim>\<open>authorization header missing\<close>; a
  non-empty header that does not start with \<^verbatim>\<open>Bearer\<close> and a space, or that has nothing
  but white space after them, \<^verbatim>\<open>invalid authorization header\<close>; and every token the
  validator refuses, expired or wrongly signed alike, \<^verbatim>\<open>invalid or expired token\<close>. The
  first conjunct says that a rejection is one of these three and nothing else; the others
  give each case on its own, and the last the form of the response.
\<close>

theorem AuthMiddleware_rejections:
  \<open>(AuthMiddleware L j now r = Responded resp \<longleftrightarrow>
      ((Authorization r = None \<or> Authorization r = Some [])
         \<and> resp = unauthorized ''authorization header missing'')
      \<or> ((\<exists>h. Authorization r = Some h \<and> h \<noteq> []
             \<and> (\<not> (\<exists>rest. h = ''Bearer '' @ rest)
                 \<or> (\<exists>rest. h = ''Bearer '' @ rest \<and> TrimSpace rest = [])))
         \<and> resp = unauthorized ''invalid authorization header'')
      \<or> ((\<exists>rest err. Authorization r = Some (''Bearer '' @ rest) \<and> TrimSpace rest \<noteq> []
             \<and> ValidateToken L j now (TrimSpace rest) = Inl err)
         \<and> resp = unauthorized ''invalid or expired token''))
   \<and> (Authorization r = None
      \<longrightarrow> AuthMiddleware L j now r = Responded (unauthorized ''authorization header missing''))
   \<and> (Authorization r = Some []
      \<longrightarrow> AuthMiddleware L j now r = Responded (unauthorized ''authorization header missing''))
   \<and> (\<forall>h. Authorization r = Some h \<and> h \<noteq> [] \<and> \<not> (\<exists>rest. h = ''Bearer '' @ rest)
          \<longrightarrow> AuthMiddleware L j now r = Responded (unauthorized ''invalid authorization header''))
   \<and> (\<forall>rest. Authorization r = Some (''Bearer '' @ rest) \<and> TrimSpace rest = []
          \<longrightarrow> AuthMiddleware L j now r = Responded (unauthorized ''invalid authorization header''))
   \<and> (\<forall>rest err. Authorization r = Some (''Bearer '' @ rest) \<and> TrimSpace rest \<noteq> []
            \<and> ValidateToken L j now (TrimSpace rest) = Inl err
          \<longrightarrow> AuthMiddleware L j now r = Responded (unauthorized ''invalid or expired token''))
   \<and> (\<forall>msg. status (unauthorized msg) = 401
          \<and> contentType (unauthorized msg) = ''application/json''
          \<and> written (unauthorized msg)
              = Bytes (''{"error":"unauthorized","message":"'' @ msg @ ''"}''))\<close>
proof (intro conjI allI impI)
  show "AuthMiddleware L j now r = Responded resp \<longleftrightarrow>
      ((Authorization r = None \<or> Authorization r = Some [])
         \<and> resp = unauthorized ''authorization header missing'')
      \<or> ((\<exists>h. Authorization r = Some h \<and> h \<noteq> []
             \<and> (\<not> (\<exists>rest. h = ''Bearer '' @ rest)
                 \<or> (\<exists>rest. h = ''Bearer '' @ rest \<and> TrimSpace rest = [])))
         \<and> resp = unauthorized ''invalid authorization header'')
      \<or> ((\<exists>rest err. Authorization r = Some (''Bearer '' @ rest) \<and> TrimSpace rest \<noteq> []
             \<and> ValidateToken L j now (TrimSpace rest) = Inl err)
         \<and> resp = unauthorized ''invalid or expired token'')"
    by (rule AuthMiddleware_Responded_iff)
next
  assume "Authorization r = None"
  then show "AuthMiddleware L j now r = Responded (unauthorized ''authorization header missing'')"
    by (simp add: AuthMiddleware_eq)
next
  assume "Authorization r = Some []"
  then show "AuthMiddleware L j now r = Responded (unauthorized ''authorization header missing'')"
    by (simp add: AuthMiddleware_eq)
next
  fix h
  assume a: "Authorization r = Some h \<and> h \<noteq> [] \<and> \<not> (\<exists>rest. h = ''Bearer '' @ rest)"
  then have "bearerToken h = []"
    by (simp add: bearerToken_no_prefix)
  with a show "AuthMiddleware L j now r = Responded (unauthorized ''invalid authorization header'')"
    by (simp add: AuthMiddleware_eq)
next
  fix rest
  assume a: "Authorization r = Some (''Bearer '' @ rest) \<and> TrimSpace rest = []"
  have b: "bearerToken (''Bearer '' @ rest) = TrimSpace rest"
    by (rule bearerToken_Bearer)
  show "AuthMiddleware L j now r = Responded (unauthorized ''invalid authorization header'')"
    unfolding AuthMiddleware_eq using a b by (simp del: append.simps)
next
  fix rest err
  assume a: "Authorization r = Some (''Bearer '' @ rest) \<and> TrimSpace rest \<noteq> []
      \<and> ValidateToken L j now (TrimSpace rest) = Inl err"
  have b: "bearerToken (''Bearer '' @ rest) = TrimSpace rest"
    by (rule bearerToken_Bearer)
  show "AuthMiddleware L j now r = Responded (unauthorized ''invalid or expired token'')"
    unfolding AuthMiddleware_eq using a b by (simp del: append.simps)
qed (simp_all add: unauthorized_def)

text \<open>
  Claim C8 (the accepted header), as amended. The gate passes a request on exactly when
  the header is \<^verbatim>\<open>Bearer\<close>, one space, and a remainder that is not empty once the white
  space around it is trimmed and that \<^verbatim>\<open>ValidateToken\<close> accepts in its trimmed form; white
  space around the token is therefore tolerated. In every other case (no header, another
  scheme, no space after \<^verbatim>\<open>Bearer\<close>, nothing but white space after it, a refused token)
  the gate responds itself, with status 401, and the next handler is not called.
\<close>

theorem AuthMiddleware_Next_iff:
  "(AuthMiddleware L j now r = Next ctx \<longleftrightarrow>
      (\<exists>rest claims. Authorization r = Some (''Bearer '' @ rest) \<and> TrimSpace rest \<noteq> []
         \<and> ValidateToken L j now (TrimSpace rest) = Inr claims
         \<and> ctx = \<lparr>userIDKey = UserID claims, emailKey = Email claims\<rparr>))
   \<and> ((\<exists>c. AuthMiddleware L j now r = Next c)
       \<or> (\<exists>msg. AuthMiddleware L j now r = Responded (unauthorized msg)
             \<and> status (unauthorized msg) = 401))"
proof
  show "AuthMiddleware L j now r = Next ctx \<longleftrightarrow>
      (\<exists>rest claims. Authorization r = Some (''Bearer '' @ rest) \<and> TrimSpace rest \<noteq> []
         \<and> ValidateToken L j now (TrimSpace rest) = Inr claims
         \<and> ctx = \<lparr>userIDKey = UserID claims, emailKey = Email claims\<rparr>)"
  proof (cases "Authorization r")
    case None
    then show ?thesis by (simp add: AuthMiddleware_eq)
  next
    case (Some h)
    show ?thesis
    proof (cases "\<exists>rest. h = ''Bearer '' @ rest")
      case True
      then obtain rest where h: "h = ''Bearer '' @ rest" by blast
      have b: "bearerToken h = TrimSpace rest"
        unfolding h by (rule bearerToken_Bearer)
      have ne: "h \<noteq> []" using h by simp
      have "AuthMiddleware L j now r = Next ctx \<longleftrightarrow>
          (TrimSpace rest \<noteq> [] \<and> (\<exists>claims. ValidateToken L j now (TrimSpace rest) = Inr claims
             \<and> ctx = \<lparr>userIDKey = UserID claims, emailKey = Email claims\<rparr>))"
        unfolding AuthMiddleware_eq Some using b ne
        by (auto split: sum.splits)
      then show ?thesis
        using Some h by auto
    next
      case False
      then have "bearerToken h = []" by (rule bearerToken_no_prefix)
      then have "AuthMiddleware L j now r \<noteq> Next ctx"
        by (simp add: AuthMiddleware_eq Some)
      then show ?thesis
        using Some False by auto
    qed
  qed
next
  show "(\<exists>c. AuthMiddleware L j now r = Next c)
       \<or> (\<exists>msg. AuthMiddleware L j now r = Responded (unauthorized msg)
             \<and> status (unauthorized msg) = 401)"
    by (auto simp: AuthMiddleware_eq unauthorized_def split: option.splits sum.splits)
qed


lemma length_hmac_Sum_id:
  "length (hmac_Sum (\<lambda>h m. m) h key msg) = 2 * BlockSize h + length msg"
  by (simp add: hmac_Sum_def hmac_block_def xor_bytes_def length_copy_into)

lemma last_hmac_Sum_id:
  "msg \<noteq> [] \<Longrightarrow> last (hmac_Sum (\<lambda>h m. m) h key msg) = last msg"
  by (simp add: hmac_Sum_def)

lemma sample_SigningString_access:
  "SigningString sample_lib ''HS256''
     (marshal_Claims (accessClaims sample_manager ''u1'' ''a@b.com'' sample_t0)) = ''acc''"
  by (simp add: sample_lib_def table_lib_def)

lemma sample_SigningString_refresh:
  "SigningString sample_lib ''HS256''
     (marshal_RegisteredClaims (refreshClaims sample_manager ''u1'' sample_t0)) = ''ref''"
  by (simp add: sample_lib_def table_lib_def marshal_Claims_def marshal_RegisteredClaims_def)

lemma Compact_sample_lib: "Compact sample_lib t sg = t @ ''.'' @ sg"
  by (simp add: sample_lib_def table_lib_def)

lemma sample_access_token:
  "GenerateAccessToken sample_lib sample_manager ''u1'' ''a@b.com'' sample_t0
     = Inr (''acc.'' @ hmac_Sum (\<lambda>h m. m) SHA256 ''k'' ''acc'')"
  by (simp add: GenerateAccessToken_def SignedString_HS256 sample_SigningString_access
      Compact_sample_lib sha_sample_lib sample_secret)

lemma sample_refresh_token:
  "GenerateRefreshToken sample_lib sample_manager ''u1'' sample_t0
     = Inr (''ref.'' @ hmac_Sum (\<lambda>h m. m) SHA256 ''k'' ''ref'')"
  by (simp add: GenerateRefreshToken_def SignedString_HS256 sample_SigningString_refresh
      Compact_sample_lib sha_sample_lib sample_secret)

lemma plain_a: "plain_byte (CHR ''a'')" and plain_c: "plain_byte (CHR ''c'')"
  and plain_r: "plain_byte (CHR ''r'')" and plain_f: "plain_byte (CHR ''f'')"
  by (simp_all add: plain_byte_def isSpace1_def)

lemma TrimSpace_sample_access:
  "TrimSpace (''acc.'' @ hmac_Sum (\<lambda>h m. m) SHA256 ''k'' ''acc'')
     = ''acc.'' @ hmac_Sum (\<lambda>h m. m) SHA256 ''k'' ''acc''"
proof (rule TrimSpace_plain)
  have ne: "hmac_Sum (\<lambda>h m. m) SHA256 ''k'' ''acc'' \<noteq> []"
    using length_hmac_Sum_id [of SHA256 "''k''" "''acc''"] by auto
  show "plain_byte (last (''acc.'' @ hmac_Sum (\<lambda>h m. m) SHA256 ''k'' ''acc''))"
    using ne by (simp add: last_hmac_Sum_id plain_c)
qed (simp_all add: plain_a)

lemma TrimSpace_sample_refresh:
  "TrimSpace (''ref.'' @ hmac_Sum (\<lambda>h m. m) SHA256 ''k'' ''ref'')
     = ''ref.'' @ hmac_Sum (\<lambda>h m. m) SHA256 ''k'' ''ref''"
proof (rule TrimSpace_plain)
  have ne: "hmac_Sum (\<lambda>h m. m) SHA256 ''k'' ''ref'' \<noteq> []"
    using length_hmac_Sum_id [of SHA256 "''k''" "''ref''"] by auto
  show "plain_byte (last (''ref.'' @ hmac_Sum (\<lambda>h m. m) SHA256 ''k'' ''ref''))"
    using ne by (simp add: last_hmac_Sum_id plain_f)
qed (simp_all add: plain_r)

lemma sample_expired:
  "ValidateToken sample_lib sample_manager (sample_t0 + accessTokenDuration sample_manager)
     (''acc.'' @ hmac_Sum (\<lambda>h m. m) SHA256 ''k'' ''acc'')
   = Inl (Passed (ErrTokenInvalidClaims [ErrTokenExpired]))"
  unfolding ValidateToken_generated_access [OF sample_codec_access sample_access_token]
    Validate_accessClaims
  by (simp add: sample_duration sample_t0_def date_Time_def NewNumericDate_def)

lemma sample_valid:
  "ValidateToken sample_lib sample_manager (sample_t0 + 5)
     (''acc.'' @ hmac_Sum (\<lambda>h m. m) SHA256 ''k'' ''acc'')
   = Inr (accessClaims sample_manager ''u1'' ''a@b.com'' sample_t0)"
  unfolding ValidateToken_generated_access [OF sample_codec_access sample_access_token]
    Validate_accessClaims
  by (simp add: sample_duration sample_t0_def date_Time_def NewNumericDate_def)

lemma sample_Decode_forged:
  "Decode sample_lib ''acc.x'' =
     Some \<lparr>hdr_alg = Some ''HS256'',
           payload = marshal_Claims (accessClaims sample_manager ''u1'' ''a@b.com'' sample_t0),
           signing_input = ''acc'', signature = ''x''\<rparr>"
  by (simp add: sample_lib_def table_lib_def)

lemma sample_forged:
  "ValidateToken sample_lib sample_manager now ''acc.x'' = Inl (Passed ErrTokenSignatureInvalid)"
proof -
  have "length ''x'' \<noteq> length (hmac_Sum (\<lambda>h m. m) SHA256 ''k'' ''acc'')"
    unfolding length_hmac_Sum_id by (simp add: BlockSize_def)
  then have "''x'' \<noteq> hmac_Sum (\<lambda>h m. m) SHA256 ''k'' ''acc''"
    by metis
  then show ?thesis
    unfolding ValidateToken_def ParseWithClaims_keyFunc sample_Decode_forged
    by (simp add: verified_HS256 GetSigningMethod_HS256 sha_sample_lib sample_secret)
qed

theorem AuthMiddleware_rejections_witness:
  "AuthMiddleware sample_lib sample_manager (sample_t0 + accessTokenDuration sample_manager)
      \<lparr>Authorization = None\<rparr>
     = Responded (unauthorized ''authorization header missing'')
   \<and> (\<forall>resp. AuthMiddleware sample_lib sample_manager
              (sample_t0 + accessTokenDuration sample_manager) \<lparr>Authorization = None\<rparr>
            = Responded resp
          \<longleftrightarrow> resp = unauthorized ''authorization header missing'')
   \<and> AuthMiddleware sample_lib sample_manager (sample_t0 + accessTokenDuration sample_manager)
      \<lparr>Authorization = Some []\<rparr>
     = Responded (unauthorized ''authorization header missing'')
   \<and> AuthMiddleware sample_lib sample_manager (sample_t0 + accessTokenDuration sample_manager)
      \<lparr>Authorization = Some ''Basic abc''\<rparr>
     = Responded (unauthorized ''invalid authorization header'')
   \<and> TrimSpace ''  '' = []
   \<and> AuthMiddleware sample_lib sample_manager (sample_t0 + accessTokenDuration sample_manager)
      \<lparr>Authorization = Some (''Bearer '' @ ''  '')\<rparr>
     = Responded (unauthorized ''invalid authorization header'')
   \<and> ValidateToken sample_lib sample_manager (sample_t0 + accessTokenDuration sample_manager)
        (''acc.'' @ hmac_Sum (\<lambda>h m. m) SHA256 ''k'' ''acc'')
       = Inl (Passed (ErrTokenInvalidClaims [ErrTokenExpired]))
   \<and> AuthMiddleware sample_lib sample_manager (sample_t0 + accessTokenDuration sample_manager)
      \<lparr>Authorization = Some (''Bearer '' @ ''acc.'' @ hmac_Sum (\<lambda>h m. m) SHA256 ''k'' ''acc'')\<rparr>
     = Responded (unauthorized ''invalid or expired token'')
   \<and> ValidateToken sample_lib sample_manager (sample_t0 + accessTokenDuration sample_manager)
        ''acc.x'' = Inl (Passed ErrTokenSignatureInvalid)
   \<and> AuthMiddleware sample_lib sample_manager (sample_t0 + accessTokenDuration sample_manager)
      \<lparr>Authorization = Some (''Bearer '' @ ''acc.x'')\<rparr>
     = Responded (unauthorized ''invalid or expired token'')"
proof -
  let ?T = "sample_t0 + accessTokenDuration sample_manager"
  let ?tok = "''acc.'' @ hmac_Sum (\<lambda>h m. m) SHA256 ''k'' ''acc''"
  note R = AuthMiddleware_rejections [of sample_lib sample_manager ?T]
  have 1: "AuthMiddleware sample_lib sample_manager ?T \<lparr>Authorization = None\<rparr>
      = Responded (unauthorized ''authorization header missing'')"
    using R [of "\<lparr>Authorization = None\<rparr>", THEN conjunct2, THEN conjunct1] by simp
  have u: "\<forall>resp. AuthMiddleware sample_lib sample_manager ?T \<lparr>Authorization = None\<rparr>
        = Responded resp
      \<longleftrightarrow> resp = unauthorized ''authorization header missing''"
    using R [of "\<lparr>Authorization = None\<rparr>", THEN conjunct1] by simp
  have e1: "AuthMiddleware sample_lib sample_manager ?T \<lparr>Authorization = Some []\<rparr>
      = Responded (unauthorized ''authorization header missing'')"
    using R [of "\<lparr>Authorization = Some []\<rparr>", THEN conjunct2, THEN conjunct2, THEN conjunct1]
    by simp
  have "\<not> (\<exists>rest. ''Basic abc'' = ''Bearer '' @ rest)" by simp
  then have 2: "AuthMiddleware sample_lib sample_manager ?T \<lparr>Authorization = Some ''Basic abc''\<rparr>
      = Responded (unauthorized ''invalid authorization header'')"
    using R [of "\<lparr>Authorization = Some ''Basic abc''\<rparr>", THEN conjunct2, THEN conjunct2,
        THEN conjunct2, THEN conjunct1]
    by simp
  have bl: "TrimSpace ''  '' = []"
    by (simp add: TrimSpace_def isSpace1_def)
  have b2: "AuthMiddleware sample_lib sample_manager ?T \<lparr>Authorization = Some (''Bearer '' @ ''  '')\<rparr>
      = Responded (unauthorized ''invalid authorization header'')"
    using R [of "\<lparr>Authorization = Some (''Bearer '' @ ''  '')\<rparr>", THEN conjunct2, THEN conjunct2,
        THEN conjunct2, THEN conjunct2, THEN conjunct1] bl
    by (simp del: append.simps)
  have ne: "?tok \<noteq> []" by simp
  note R5 = R [THEN conjunct2, THEN conjunct2, THEN conjunct2, THEN conjunct2, THEN conjunct2,
      THEN conjunct1]
  have 3: "AuthMiddleware sample_lib sample_manager ?T \<lparr>Authorization = Some (''Bearer '' @ ?tok)\<rparr>
      = Responded (unauthorized ''invalid or expired token'')"
    using R5 [of "\<lparr>Authorization = Some (''Bearer '' @ ?tok)\<rparr>"] sample_expired ne
    by (simp add: TrimSpace_sample_access del: append.simps)
  have t: "TrimSpace ''acc.x'' = ''acc.x''"
    by (rule TrimSpace_plain) (simp_all add: plain_byte_def isSpace1_def)
  have 4: "AuthMiddleware sample_lib sample_manager ?T \<lparr>Authorization = Some (''Bearer '' @ ''acc.x'')\<rparr>
      = Responded (unauthorized ''invalid or expired token'')"
    using R5 [of "\<lparr>Authorization = Some (''Bearer '' @ ''acc.x'')\<rparr>"] sample_forged [of ?T]
    by (simp add: t del: append.simps)
  from 1 u e1 2 bl b2 3 4 sample_expired sample_forged [of ?T] show ?thesis by blast
qed

text \<open>
  Against C3 as stated: the three stages answer with three different bodies, whatever the
  library, the manager and the time.
\<close>

theorem AuthMiddleware_rejections_differ:
  "(\<forall>L j now.
      AuthMiddleware L j now \<lparr>Authorization = None\<rparr>
        = Responded (unauthorized ''authorization header missing'')
      \<and> AuthMiddleware L j now \<lparr>Authorization = Some ''Basic abc''\<rparr>
        = Responded (unauthorized ''invalid authorization header''))
   \<and> AuthMiddleware sample_lib sample_manager sample_t0 \<lparr>Authorization = Some ''Bearer acc.x''\<rparr>
     = Responded (unauthorized ''invalid or expired token'')
   \<and> written (unauthorized ''authorization header missing'')
       \<noteq> written (unauthorized ''invalid authorization header'')
   \<and> written (unauthorized ''invalid authorization header'')
       \<noteq> written (unauthorized ''invalid or expired token'')
   \<and> written (unauthorized ''authorization header missing'')
       \<noteq> written (unauthorized ''invalid or expired token'')"
proof -
  have b: "bearerToken ''Basic abc'' = []"
    by (rule bearerToken_no_prefix) simp
  have t: "TrimSpace ''acc.x'' = ''acc.x''"
    by (rule TrimSpace_plain) (simp_all add: plain_byte_def isSpace1_def)
  have c: "bearerToken ''Bearer acc.x'' = ''acc.x''"
    using bearerToken_Bearer [of "''acc.x''"] by (simp add: t)
  show ?thesis
    by (simp add: AuthMiddleware_eq b c sample_forged unauthorized_def)
qed

lemma sample_accessClaims_ids:
  "UserID (accessClaims sample_manager ''u1'' ''a@b.com'' sample_t0) = ''u1''"
  "Email (accessClaims sample_manager ''u1'' ''a@b.com'' sample_t0) = ''a@b.com''"
  by (simp_all add: accessClaims_def)

theorem AuthMiddleware_Next_iff_witness:
  "ValidateToken sample_lib sample_manager (sample_t0 + 5)
       (''acc.'' @ hmac_Sum (\<lambda>h m. m) SHA256 ''k'' ''acc'')
     = Inr (accessClaims sample_manager ''u1'' ''a@b.com'' sample_t0)
   \<and> AuthMiddleware sample_lib sample_manager (sample_t0 + 5)
        \<lparr>Authorization = Some (''Bearer '' @ ''acc.'' @ hmac_Sum (\<lambda>h m. m) SHA256 ''k'' ''acc'')\<rparr>
     = Next \<lparr>userIDKey = ''u1'', emailKey = ''a@b.com''\<rparr>"
proof -
  let ?tok = "''acc.'' @ hmac_Sum (\<lambda>h m. m) SHA256 ''k'' ''acc''"
  let ?r = "\<lparr>Authorization = Some (''Bearer '' @ ?tok)\<rparr>"
  have "\<exists>rest claims. Authorization ?r = Some (''Bearer '' @ rest) \<and> TrimSpace rest \<noteq> []
         \<and> ValidateToken sample_lib sample_manager (sample_t0 + 5) (TrimSpace rest) = Inr claims
         \<and> \<lparr>userIDKey = ''u1'', emailKey = ''a@b.com''\<rparr>
             = \<lparr>userIDKey = UserID claims, emailKey = Email claims\<rparr>"
    apply (rule exI [of _ ?tok])
    apply (rule exI [of _ "accessClaims sample_manager ''u1'' ''a@b.com'' sample_t0"])
    apply (simp add: TrimSpace_sample_access sample_valid sample_accessClaims_ids
        del: append.simps)
    done
  then have "AuthMiddleware sample_lib sample_manager (sample_t0 + 5) ?r
      = Next \<lparr>userIDKey = ''u1'', emailKey = ''a@b.com''\<rparr>"
    using AuthMiddleware_Next_iff [of sample_lib sample_manager "sample_t0 + 5" ?r
        "\<lparr>userIDKey = ''u1'', emailKey = ''a@b.com''\<rparr>"]
    by blast
  with sample_valid show ?thesis by blast
qed

text \<open>
  Against C8 as stated: with two spaces after \<^verbatim>\<open>Bearer\<close> the gate still passes the request
  on.
\<close>

theorem AuthMiddleware_accepts_extra_space:
  "AuthMiddleware sample_lib sample_manager (sample_t0 + 5)
     \<lparr>Authorization = Some (''Bearer  '' @ ''acc.'' @ hmac_Sum (\<lambda>h m. m) SHA256 ''k'' ''acc'')\<rparr>
   = Next \<lparr>userIDKey = ''u1'', emailKey = ''a@b.com''\<rparr>"
proof -
  let ?tok = "''acc.'' @ hmac_Sum (\<lambda>h m. m) SHA256 ''k'' ''acc''"
  have h: "''Bearer  '' @ ?tok = ''Bearer '' @ (CHR '' '' # ?tok)"
    by simp
  have b: "bearerToken (''Bearer  '' @ ?tok) = ?tok"
    unfolding h bearerToken_Bearer TrimSpace_space by (rule TrimSpace_sample_access)
  have ne: "''Bearer  '' @ ?tok \<noteq> []" by simp
  show ?thesis
    unfolding AuthMiddleware_eq using b ne
    by (simp add: sample_valid sample_accessClaims_ids del: append.simps)
qed

lemma ValidateToken_generated_refresh:
  assumes "codec_ok L ''HS256'' (marshal_RegisteredClaims (refreshClaims j u t0))"
    and "GenerateRefreshToken L j u t0 = Inr tok"
  shows "ValidateToken L j now tok =
     (if Validate now (unmarshal_Claims (marshal_RegisteredClaims (refreshClaims j u t0))) = []
      then Inr (unmarshal_Claims (marshal_RegisteredClaims (refreshClaims j u t0)))
      else Inl (Passed (ErrTokenInvalidClaims
             (Validate now (unmarshal_Claims (marshal_RegisteredClaims (refreshClaims j u t0)))))))"
  using ValidateToken_signed [OF assms(1) assms(2) [unfolded GenerateRefreshToken_def], of j now]
  by simp

text \<open>
  Claim C10 (a refresh token at the gate). A refresh token issued by the manager at \<open>t0\<close>
  is accepted by \<^verbatim>\<open>ValidateToken\<close> of the same manager at every \<open>now\<close> from \<open>t0\<close> up to
  its expiry, with claims whose \<^verbatim>\<open>UserID\<close> and \<^verbatim>\<open>Email\<close> are empty, and the gate passes
  a request carrying it on with two empty context values. (The token string, like every
  compact JWT, is not empty and has no white space at its ends.)
\<close>

theorem refresh_token_passes_gate:
  assumes "codec_ok L ''HS256'' (marshal_RegisteredClaims (refreshClaims j userID t0))"
    and "GenerateRefreshToken L j userID t0 = Inr tok"
    and "t0 \<le> now" and "now < date_Time (NewNumericDate (t0 + refreshTokenDuration j))"
    and "tok \<noteq> []" and "TrimSpace tok = tok"
  shows "\<exists>c. ValidateToken L j now tok = Inr c \<and> UserID c = [] \<and> Email c = []
     \<and> AuthMiddleware L j now \<lparr>Authorization = Some (''Bearer '' @ tok)\<rparr>
         = Next \<lparr>userIDKey = [], emailKey = []\<rparr>"
proof -
  let ?c = "unmarshal_Claims (marshal_RegisteredClaims (refreshClaims j userID t0))"
  have "date_Time (NewNumericDate t0) \<le> now"
    using trunc_le [of t0] assms(3) by linarith
  then have "Validate now ?c = []"
    unfolding Validate_refreshClaims using assms(4) by simp
  then have v: "ValidateToken L j now tok = Inr ?c"
    unfolding ValidateToken_generated_refresh [OF assms(1,2)] by simp
  have ids: "UserID ?c = []" "Email ?c = []"
    by (simp_all add: unmarshal_Claims_marshal_RegisteredClaims)
  have b: "bearerToken (''Bearer '' @ tok) = tok"
    unfolding bearerToken_Bearer by (rule assms(6))
  have "AuthMiddleware L j now \<lparr>Authorization = Some (''Bearer '' @ tok)\<rparr>
      = Next \<lparr>userIDKey = [], emailKey = []\<rparr>"
    unfolding AuthMiddleware_eq using b assms(5) v ids by (simp del: append.simps)
  with v ids show ?thesis by blast
qed

lemma sample_refresh_duration: "refreshTokenDuration sample_manager = 604800000000000"
  by (simp add: sample_manager_def NewJWTManager_def)

theorem refresh_token_passes_gate_witness:
  "codec_ok sample_lib ''HS256''
     (marshal_RegisteredClaims (refreshClaims sample_manager ''u1'' sample_t0))
   \<and> GenerateRefreshToken sample_lib sample_manager ''u1'' sample_t0
       = Inr (''ref.'' @ hmac_Sum (\<lambda>h m. m) SHA256 ''k'' ''ref'')
   \<and> sample_t0 \<le> sample_t0 + 5
   \<and> sample_t0 + 5
       < date_Time (NewNumericDate (sample_t0 + refreshTokenDuration sample_manager))
   \<and> TrimSpace (''ref.'' @ hmac_Sum (\<lambda>h m. m) SHA256 ''k'' ''ref'')
       = ''ref.'' @ hmac_Sum (\<lambda>h m. m) SHA256 ''k'' ''ref''
   \<and> (\<exists>c. ValidateToken sample_lib sample_manager (sample_t0 + 5)
              (''ref.'' @ hmac_Sum (\<lambda>h m. m) SHA256 ''k'' ''ref'') = Inr c
          \<and> UserID c = [] \<and> Email c = [])
   \<and> AuthMiddleware sample_lib sample_manager (sample_t0 + 5)
        \<lparr>Authorization = Some (''Bearer '' @ ''ref.'' @ hmac_Sum (\<lambda>h m. m) SHA256 ''k'' ''ref'')\<rparr>
       = Next \<lparr>userIDKey = [], emailKey = []\<rparr>"
proof -
  let ?tok = "''ref.'' @ hmac_Sum (\<lambda>h m. m) SHA256 ''k'' ''ref''"
  have a: "sample_t0 \<le> sample_t0 + 5" by simp
  have b: "sample_t0 + 5
      < date_Time (NewNumericDate (sample_t0 + refreshTokenDuration sample_manager))"
    by (simp add: sample_refresh_duration sample_t0_def date_Time_def NewNumericDate_def)
  have ne: "?tok \<noteq> []" by simp
  from refresh_token_passes_gate [OF sample_codec_refresh sample_refresh_token a b ne
      TrimSpace_sample_refresh]
  show ?thesis
    using sample_codec_refresh sample_refresh_token a b TrimSpace_sample_refresh by blast
qed

section \<open>Refresh tokens and login\<close>

text \<open>
  Claim C4 (refresh-token validation), as amended. \<^verbatim>\<open>ValidateRefreshToken\<close> returns a
  subject exactly when the token decodes, its algorithm is of the HMAC family and its
  signature is the tag under the manager's secret, the issuer is \<^verbatim>\<open>secure-task-api\<close>, the
  expiry is present and after \<open>now\<close>, the not-before time, if present, is not after
  \<open>now\<close>, and the subject is not empty; what it returns is that subject. In every other
  case it returns an error.
\<close>

theorem ValidateRefreshToken_accepts_iff:
  "(ValidateRefreshToken L j now tok = Inr s \<longleftrightarrow>
      (\<exists>raw e. Decode L tok = Some raw \<and> verified L j raw
         \<and> Issuer (unmarshal_RegisteredClaims (payload raw)) = ''secure-task-api''
         \<and> ExpiresAt (unmarshal_RegisteredClaims (payload raw)) = Some e \<and> now < date_Time e
         \<and> (case NotBefore (unmarshal_RegisteredClaims (payload raw)) of
               None \<Rightarrow> True
             | Some n \<Rightarrow> date_Time n \<le> now)
         \<and> Subject (unmarshal_RegisteredClaims (payload raw)) \<noteq> []
         \<and> s = Subject (unmarshal_RegisteredClaims (payload raw))))
   \<and> ((\<exists>sub. ValidateRefreshToken L j now tok = Inr sub)
       \<or> (\<exists>err. ValidateRefreshToken L j now tok = Inl err))"
proof
  show "ValidateRefreshToken L j now tok = Inr s \<longleftrightarrow>
      (\<exists>raw e. Decode L tok = Some raw \<and> verified L j raw
         \<and> Issuer (unmarshal_RegisteredClaims (payload raw)) = ''secure-task-api''
         \<and> ExpiresAt (unmarshal_RegisteredClaims (payload raw)) = Some e \<and> now < date_Time e
         \<and> (case NotBefore (unmarshal_RegisteredClaims (payload raw)) of
               None \<Rightarrow> True
             | Some n \<Rightarrow> date_Time n \<le> now)
         \<and> Subject (unmarshal_RegisteredClaims (payload raw)) \<noteq> []
         \<and> s = Subject (unmarshal_RegisteredClaims (payload raw)))"
  proof -
    have body: "(in_window now c \<and> ExpiresAt c \<noteq> None) \<longleftrightarrow>
        (\<exists>e. ExpiresAt c = Some e \<and> now < date_Time e
           \<and> (case NotBefore c of None \<Rightarrow> True | Some n \<Rightarrow> date_Time n \<le> now))"
      for c :: RegisteredClaims
      by (cases "ExpiresAt c") (auto simp: in_window_def)
    show ?thesis
      unfolding ValidateRefreshToken_Inr_iff
    proof
      assume "\<exists>raw. Decode L tok = Some raw \<and> verified L j raw
        \<and> in_window now (unmarshal_RegisteredClaims (payload raw))
        \<and> Issuer (unmarshal_RegisteredClaims (payload raw)) = ''secure-task-api''
        \<and> ExpiresAt (unmarshal_RegisteredClaims (payload raw)) \<noteq> None
        \<and> s = Subject (unmarshal_RegisteredClaims (payload raw)) \<and> s \<noteq> []"
      then obtain raw where r: "Decode L tok = Some raw" "verified L j raw"
        "in_window now (unmarshal_RegisteredClaims (payload raw))
           \<and> ExpiresAt (unmarshal_RegisteredClaims (payload raw)) \<noteq> None"
        "Issuer (unmarshal_RegisteredClaims (payload raw)) = ''secure-task-api''"
        "s = Subject (unmarshal_RegisteredClaims (payload raw))" "s \<noteq> []"
        by blast
      from r(3) obtain e where "ExpiresAt (unmarshal_RegisteredClaims (payload raw)) = Some e"
        "now < date_Time e"
        "case NotBefore (unmarshal_RegisteredClaims (payload raw)) of
           None \<Rightarrow> True | Some n \<Rightarrow> date_Time n \<le> now"
        unfolding body by blast
      with r show "\<exists>raw e. Decode L tok = Some raw \<and> verified L j raw
         \<and> Issuer (unmarshal_RegisteredClaims (payload raw)) = ''secure-task-api''
         \<and> ExpiresAt (unmarshal_RegisteredClaims (payload raw)) = Some e \<and> now < date_Time e
         \<and> (case NotBefore (unmarshal_RegisteredClaims (payload raw)) of
               None \<Rightarrow> True
             | Some n \<Rightarrow> date_Time n \<le> now)
         \<and> Subject (unmarshal_RegisteredClaims (payload raw)) \<noteq> []
         \<and> s = Subject (unmarshal_RegisteredClaims (payload raw))"
        by blast
    next
      assume "\<exists>raw e. Decode L tok = Some raw \<and> verified L j raw
         \<and> Issuer (unmarshal_RegisteredClaims (payload raw)) = ''secure-task-api''
         \<and> ExpiresAt (unmarshal_RegisteredClaims (payload raw)) = Some e \<and> now < date_Time e
         \<and> (case NotBefore (unmarshal_RegisteredClaims (payload raw)) of
               None \<Rightarrow> True
             | Some n \<Rightarrow> date_Time n \<le> now)
         \<and> Subject (unmarshal_RegisteredClaims (payload raw)) \<noteq> []
         \<and> s = Subject (unmarshal_RegisteredClaims (payload raw))"
      then obtain raw e where r: "Decode L tok = Some raw" "verified L j raw"
        "Issuer (unmarshal_RegisteredClaims (payload raw)) = ''secure-task-api''"
        "ExpiresAt (unmarshal_RegisteredClaims (payload raw)) = Some e \<and> now < date_Time e
         \<and> (case NotBefore (unmarshal_RegisteredClaims (payload raw)) of
               None \<Rightarrow> True
             | Some n \<Rightarrow> date_Time n \<le> now)"
        "Subject (unmarshal_RegisteredClaims (payload raw)) \<noteq> []"
        "s = Subject (unmarshal_RegisteredClaims (payload raw))"
        by blast
      from r(4) have "in_window now (unmarshal_RegisteredClaims (payload raw))
           \<and> ExpiresAt (unmarshal_RegisteredClaims (payload raw)) \<noteq> None"
        unfolding body by blast
      with r show "\<exists>raw. Decode L tok = Some raw \<and> verified L j raw
        \<and> in_window now (unmarshal_RegisteredClaims (payload raw))
        \<and> Issuer (unmarshal_RegisteredClaims (payload raw)) = ''secure-task-api''
        \<and> ExpiresAt (unmarshal_RegisteredClaims (payload raw)) \<noteq> None
        \<and> s = Subject (unmarshal_RegisteredClaims (payload raw)) \<and> s \<noteq> []"
        by blast
    qed
  qed
next
  show "(\<exists>sub. ValidateRefreshToken L j now tok = Inr sub)
       \<or> (\<exists>err. ValidateRefreshToken L j now tok = Inl err)"
    by (cases "ValidateRefreshToken L j now tok") auto
qed

lemma sample_Decode_refresh:
  "Decode sample_lib (''ref.'' @ hmac_Sum (\<lambda>h m. m) SHA256 ''k'' ''ref'') =
     Some \<lparr>hdr_alg = Some ''HS256'',
           payload = marshal_RegisteredClaims (refreshClaims sample_manager ''u1'' sample_t0),
           signing_input = ''ref'',
           signature = hmac_Sum (\<lambda>h m. m) SHA256 ''k'' ''ref''\<rparr>"
  using Decode_signed [OF sample_codec_refresh
      sample_refresh_token [unfolded GenerateRefreshToken_def]]
  by (simp add: sample_SigningString_refresh sha_sample_lib sample_secret)

theorem ValidateRefreshToken_accepts_iff_witness:
  "ValidateRefreshToken sample_lib sample_manager (sample_t0 + 5)
     (''ref.'' @ hmac_Sum (\<lambda>h m. m) SHA256 ''k'' ''ref'') = Inr ''u1''"
proof -
  let ?raw = "\<lparr>hdr_alg = Some ''HS256'',
           payload = marshal_RegisteredClaims (refreshClaims sample_manager ''u1'' sample_t0),
           signing_input = ''ref'',
           signature = hmac_Sum (\<lambda>h m. m) SHA256 ''k'' ''ref''\<rparr>"
  have v: "verified sample_lib sample_manager ?raw"
    by (simp add: verified_HS256 sha_sample_lib sample_secret)
  have c: "unmarshal_RegisteredClaims (payload ?raw) = refreshClaims sample_manager ''u1'' sample_t0"
    by (simp add: unmarshal_marshal_RegisteredClaims)
  have "\<exists>raw e. Decode sample_lib (''ref.'' @ hmac_Sum (\<lambda>h m. m) SHA256 ''k'' ''ref'') = Some raw
         \<and> verified sample_lib sample_manager raw
         \<and> Issuer (unmarshal_RegisteredClaims (payload raw)) = ''secure-task-api''
         \<and> ExpiresAt (unmarshal_RegisteredClaims (payload raw)) = Some e
         \<and> sample_t0 + 5 < date_Time e
         \<and> (case NotBefore (unmarshal_RegisteredClaims (payload raw)) of
               None \<Rightarrow> True
             | Some n \<Rightarrow> date_Time n \<le> sample_t0 + 5)
         \<and> Subject (unmarshal_RegisteredClaims (payload raw)) \<noteq> []
         \<and> ''u1'' = Subject (unmarshal_RegisteredClaims (payload raw))"
    apply (rule exI [of _ ?raw])
    apply (rule exI [of _ "NewNumericDate (sample_t0 + refreshTokenDuration sample_manager)"])
    unfolding c
    apply (intro conjI)
           apply (rule sample_Decode_refresh)
          apply (rule v)
         apply (simp_all add: refreshClaims_def sample_refresh_duration sample_t0_def
        date_Time_def NewNumericDate_def)
    done
  then show ?thesis
    using ValidateRefreshToken_accepts_iff [of sample_lib sample_manager "sample_t0 + 5"
        "''ref.'' @ hmac_Sum (\<lambda>h m. m) SHA256 ''k'' ''ref''" "''u1''"]
    by blast
qed

lemma sample_SigningString_early:
  "SigningString sample_lib ''HS256'' (marshal_RegisteredClaims early_claims) = ''nbf''"
  by (simp add: sample_lib_def table_lib_def marshal_Claims_def marshal_RegisteredClaims_def
      foreign_claims_def early_claims_def accessClaims_def refreshClaims_def omitempty_def
      NewNumericDate_def sample_t0_def sample_manager_def NewJWTManager_def)

lemma sample_early_token:
  "SignedString sample_lib (SigningMethodHMAC SHA256) (marshal_RegisteredClaims early_claims)
     (secret sample_manager)
   = Inr (''nbf.'' @ hmac_Sum (\<lambda>h m. m) SHA256 ''k'' ''nbf'')"
  by (simp add: SignedString_HS256 sample_SigningString_early Compact_sample_lib
      sha_sample_lib sample_secret)

lemma sample_Decode_early:
  "Decode sample_lib (''nbf.'' @ hmac_Sum (\<lambda>h m. m) SHA256 ''k'' ''nbf'') =
     Some \<lparr>hdr_alg = Some ''HS256'', payload = marshal_RegisteredClaims early_claims,
           signing_input = ''nbf'', signature = hmac_Sum (\<lambda>h m. m) SHA256 ''k'' ''nbf''\<rparr>"
  using Decode_signed [OF sample_codec_early sample_early_token]
  by (simp add: sample_SigningString_early sha_sample_lib sample_secret)

text \<open>
  Against C4 as stated: a refresh token signed with the manager's secret that carries the
  right issuer, an expiry in the future and a subject, and a not-before time one hour
  ahead (as a server with a fast clock would write it), meets every condition the claim
  lists and is refused.
\<close>

theorem ValidateRefreshToken_rejects_not_yet_valid:
  "Decode sample_lib (''nbf.'' @ hmac_Sum (\<lambda>h m. m) SHA256 ''k'' ''nbf'') =
     Some \<lparr>hdr_alg = Some ''HS256'', payload = marshal_RegisteredClaims early_claims,
           signing_input = ''nbf'', signature = hmac_Sum (\<lambda>h m. m) SHA256 ''k'' ''nbf''\<rparr>
   \<and> verified sample_lib sample_manager
        \<lparr>hdr_alg = Some ''HS256'', payload = marshal_RegisteredClaims early_claims,
         signing_input = ''nbf'', signature = hmac_Sum (\<lambda>h m. m) SHA256 ''k'' ''nbf''\<rparr>
   \<and> unmarshal_RegisteredClaims (marshal_RegisteredClaims early_claims) = early_claims
   \<and> Issuer early_claims = ''secure-task-api''
   \<and> ExpiresAt early_claims = Some 1700604800
   \<and> sample_t0 + 5 < date_Time 1700604800
   \<and> Subject early_claims = ''u1''
   \<and> ValidateRefreshToken sample_lib sample_manager (sample_t0 + 5)
        (''nbf.'' @ hmac_Sum (\<lambda>h m. m) SHA256 ''k'' ''nbf'')
       = Inl (Errorf_w ''failed to parse refresh token: ''
               (ErrTokenInvalidClaims [ErrTokenNotValidYet]))"
proof -
  have v: "verified sample_lib sample_manager
        \<lparr>hdr_alg = Some ''HS256'', payload = marshal_RegisteredClaims early_claims,
         signing_input = ''nbf'', signature = hmac_Sum (\<lambda>h m. m) SHA256 ''k'' ''nbf''\<rparr>"
    by (simp add: verified_HS256 sha_sample_lib sample_secret)
  have w: "Validate (sample_t0 + 5) early_claims = [ErrTokenNotValidYet]"
    by (simp add: Validate_def early_claims_def sample_t0_def date_Time_def)
  have r: "ValidateRefreshToken sample_lib sample_manager (sample_t0 + 5)
        (''nbf.'' @ hmac_Sum (\<lambda>h m. m) SHA256 ''k'' ''nbf'')
       = Inl (Errorf_w ''failed to parse refresh token: ''
               (ErrTokenInvalidClaims [ErrTokenNotValidYet]))"
    unfolding ValidateRefreshToken_def ParseWithClaims_keyFunc sample_Decode_early
    using v by (simp add: unmarshal_marshal_RegisteredClaims w)
  show ?thesis
    using sample_Decode_early v r
    by (simp add: unmarshal_marshal_RegisteredClaims early_claims_def sample_t0_def
        date_Time_def)
qed

text \<open>
  Claim C9 (login failures). For a request with an email and a password, the response of
  \<^verbatim>\<open>Login\<close> when the repository finds no user for the email equals its response when the
  repository finds a user whose stored credential the password does not verify against:
  status 401 and the message \<^verbatim>\<open>Invalid email or password\<close>.
\<close>

theorem Login_failures_identical:
  assumes "GetByEmail_absent (req_Email req) = Inr None"
    and "GetByEmail_present (req_Email req) = Inr (Some user)"
    and "CheckPassword eks (req_Password req) (PasswordHash user) \<noteq> None"
  shows "Login eks L j now GetByEmail_absent (Some req)
       = Login eks L j now GetByEmail_present (Some req)
     \<and> (req_Email req \<noteq> [] \<and> req_Password req \<noteq> []
          \<longrightarrow> Login eks L j now GetByEmail_absent (Some req)
              = \<lparr>status = 401, contentType = ''application/json'',
                 written = ErrorJSON \<lparr>Error = ''Unauthorized'',
                                       Message = ''Invalid email or password'',
                                       Timestamp = now, StatusCode = 401\<rparr>\<rparr>)"
  using assms
  by (auto simp: Login_def Unauthorized_def JSONError_def JSONResponse_def StatusText_def
      split: option.splits)

theorem Login_failures_identical_witness:
  "CheckPassword sample_eks ''secret2''
       ''$2a$10$......................secret1secret1secret1secret1sec'' \<noteq> None
   \<and> Login sample_eks sample_lib sample_manager sample_t0 (\<lambda>email. Inr None)
       (Some \<lparr>req_Email = ''a@b.com'', req_Password = ''secret2''\<rparr>)
     = Login sample_eks sample_lib sample_manager sample_t0
         (\<lambda>email. Inr (Some \<lparr>ID = ''u1'', user_Email = ''a@b.com'',
            PasswordHash = ''$2a$10$......................secret1secret1secret1secret1sec'',
            Name = ''A'', CreatedAt = 0, UpdatedAt = 0\<rparr>))
         (Some \<lparr>req_Email = ''a@b.com'', req_Password = ''secret2''\<rparr>)
   \<and> Login sample_eks sample_lib sample_manager sample_t0 (\<lambda>email. Inr None)
       (Some \<lparr>req_Email = ''a@b.com'', req_Password = ''secret2''\<rparr>)
     = \<lparr>status = 401, contentType = ''application/json'',
        written = ErrorJSON \<lparr>Error = ''Unauthorized'', Message = ''Invalid email or password'',
                              Timestamp = sample_t0, StatusCode = 401\<rparr>\<rparr>"
proof -
  let ?req = "\<lparr>req_Email = ''a@b.com'', req_Password = ''secret2''\<rparr>"
  let ?user = "\<lparr>ID = ''u1'', user_Email = ''a@b.com'',
            PasswordHash = ''$2a$10$......................secret1secret1secret1secret1sec'',
            Name = ''A'', CreatedAt = 0, UpdatedAt = 0\<rparr>"
  have c: "CheckPassword sample_eks ''secret2''
       ''$2a$10$......................secret1secret1secret1secret1sec'' \<noteq> None"
    by (simp add: CheckPassword_def mismatch_secret2)
  have 12: "req_Email ?req \<noteq> [] \<and> req_Password ?req \<noteq> []"
    by simp
  have 3: "(\<lambda>email. Inr None) (req_Email ?req) = Inr None"
    by simp
  have 4: "(\<lambda>email. Inr (Some ?user)) (req_Email ?req) = Inr (Some ?user)"
    by simp
  have 5: "CheckPassword sample_eks (req_Password ?req) (PasswordHash ?user) \<noteq> None"
    using c by simp
  from Login_failures_identical [where GetByEmail_absent = "\<lambda>email. Inr None"
      and GetByEmail_present = "\<lambda>email. Inr (Some ?user)", OF 3 4 5,
      of sample_lib sample_manager sample_t0] c 12
  show ?thesis by blast
qed

end
